theory Spec2Isabelle
  imports Complex_Main "HOL-Library.Sublist"
begin

section \<open>Python values used by the two scripts\<close>

text \<open>
  Both scripts (\<^verbatim>\<open>predict.py\<close>, the wired-up one, and \<^verbatim>\<open>predict_template.py\<close>) build
  Python dicts of strings, numbers, lists and \<^verbatim>\<open>None\<close> and hand them to \<^verbatim>\<open>json.dumps\<close>.
  A dict is an association list in insertion order, which is also the order in which
  \<^verbatim>\<open>json.dumps\<close> writes the keys. A float inside such a value (\<open>JFloat\<close>) is given by the
  decimal numeral that \<^verbatim>\<open>json.dumps\<close> prints for it: the literals \<^verbatim>\<open>0.0\<close>, \<^verbatim>\<open>0.7\<close>, \<^verbatim>\<open>0.8\<close>,
  \<^verbatim>\<open>0.9\<close> print as themselves, and the scripts never do arithmetic on them.
\<close>

datatype json =
    JNull
  | JBool bool
  | JInt int
  | JFloat real
  | JStr string
  | JList "json list"
  | JObj "(string \<times> json) list"

type_synonym pydict = "(string \<times> json) list"

definition keys :: "pydict \<Rightarrow> string list" where
  "keys d = map fst d"

definition field :: "pydict \<Rightarrow> string \<Rightarrow> json option" where
  "field d k = map_of d k"

text \<open>
  The name of the type of a value, and the message of the \<^verbatim>\<open>AttributeError\<close> that a call
  of a method the value does not have raises.
\<close>

definition type_name :: "json \<Rightarrow> string" where
  "type_name v =
     (case v of
        JNull \<Rightarrow> ''NoneType''
      | JBool b \<Rightarrow> ''bool''
      | JInt i \<Rightarrow> ''int''
      | JFloat x \<Rightarrow> ''float''
      | JStr s \<Rightarrow> ''str''
      | JList xs \<Rightarrow> ''list''
      | JObj d \<Rightarrow> ''dict'')"

definition no_attribute :: "json \<Rightarrow> string \<Rightarrow> string" where
  "no_attribute v name =
     [CHR 0x27] @ type_name v @ [CHR 0x27] @ '' object has no attribute '' @ [CHR 0x27] @ name
       @ [CHR 0x27]"

text \<open>\<^verbatim>\<open>v.get(k)\<close>: the value under \<^verbatim>\<open>k\<close> or \<^verbatim>\<open>None\<close> when \<^verbatim>\<open>v\<close> is a dict; an
  \<^verbatim>\<open>AttributeError\<close> (\<open>Inl\<close> its message) when it is not.\<close>

definition py_get :: "json \<Rightarrow> string \<Rightarrow> string + json" where
  "py_get v k =
     (case v of
        JObj d \<Rightarrow> Inr (case map_of d k of None \<Rightarrow> JNull | Some x \<Rightarrow> x)
      | _ \<Rightarrow> Inl (no_attribute v ''get''))"

text \<open>
  A float that the scripts compare: a finite double, given by its exact value, an
  infinity or a NaN. Comparisons with a NaN are false. The float literals of the
  comparisons are the exact values of the doubles they denote; \<^verbatim>\<open>23.1\<close> and \<^verbatim>\<open>72.6\<close> are
  not the decimal numbers written.
\<close>

datatype pyfloat = Finite real | PosInf | NegInf | NaN

fun flt :: "pyfloat \<Rightarrow> pyfloat \<Rightarrow> bool" where
  "flt NaN b = False"
| "flt a NaN = False"
| "flt (Finite x) (Finite y) = (x < y)"
| "flt PosInf b = False"
| "flt a PosInf = True"
| "flt a NegInf = False"
| "flt NegInf b = True"

fun fle :: "pyfloat \<Rightarrow> pyfloat \<Rightarrow> bool" where
  "fle NaN b = False"
| "fle a NaN = False"
| "fle (Finite x) (Finite y) = (x \<le> y)"
| "fle a PosInf = True"
| "fle NegInf b = True"
| "fle PosInf b = False"
| "fle a NegInf = False"

definition double_23_1 :: real where
  "double_23_1 = 3251035981008077 / 2 ^ 47"

definition double_72_6 :: real where
  "double_72_6 = 2554385413649203 / 2 ^ 45"

definition double_19_07 :: real where
  "double_19_07 = 2683863902936105 / 2 ^ 47"

definition double_72_87 :: real where
  "double_72_87 = 640971298528297 / 2 ^ 43"

subsection \<open>Strings\<close>

text \<open>
  A string is the list of the bytes of its UTF-8 encoding. Concatenation, comparison with
  an ASCII literal and the replacement of an ASCII character act on the encodings as they
  do on the code points, and so does \<^verbatim>\<open>s in t\<close>, since no encoding of a code point occurs
  inside or across the encodings of others.

  \<^verbatim>\<open>str.lower\<close>, \<^verbatim>\<open>str.title\<close> and \<^verbatim>\<open>float\<close> belong to Python, not to the scripts: every
  function that calls one of them takes them as the argument \<open>py\<close>. What is used of
  \<^verbatim>\<open>str.lower\<close> is stated where it is used: on a string of ASCII characters it turns the
  letters A to Z into a to z and changes nothing else (\<open>lower_on_ascii\<close>). \<^verbatim>\<open>float\<close> gives
  \<open>Inl\<close> the message of its \<^verbatim>\<open>ValueError\<close> when it rejects the string.
\<close>

record python =
  str_lower :: "string \<Rightarrow> string"
  str_title :: "string \<Rightarrow> string"
  float_of :: "string \<Rightarrow> string + pyfloat"

text \<open>The two string methods on ASCII strings.\<close>

definition ascii_lower_char :: "char \<Rightarrow> char" where
  "ascii_lower_char c =
     (case map_of (zip ''ABCDEFGHIJKLMNOPQRSTUVWXYZ'' ''abcdefghijklmnopqrstuvwxyz'') c of
        Some l \<Rightarrow> l | None \<Rightarrow> c)"

definition ascii_upper_char :: "char \<Rightarrow> char" where
  "ascii_upper_char c =
     (case map_of (zip ''abcdefghijklmnopqrstuvwxyz'' ''ABCDEFGHIJKLMNOPQRSTUVWXYZ'') c of
        Some u \<Rightarrow> u | None \<Rightarrow> c)"

definition is_lower :: "char \<Rightarrow> bool" where
  "is_lower c = (c \<in> set ''abcdefghijklmnopqrstuvwxyz'')"

definition is_upper :: "char \<Rightarrow> bool" where
  "is_upper c = (c \<in> set ''ABCDEFGHIJKLMNOPQRSTUVWXYZ'')"

definition ascii_lower :: "string \<Rightarrow> string" where
  "ascii_lower s = map ascii_lower_char s"

definition is_ascii :: "char \<Rightarrow> bool" where
  "is_ascii c = ((of_char c :: nat) < 128)"

definition lower_on_ascii :: "python \<Rightarrow> bool" where
  "lower_on_ascii py = (\<forall>s. list_all is_ascii s \<longrightarrow> str_lower py s = ascii_lower s)"

text \<open>
  \<^verbatim>\<open>str.title()\<close> on ASCII: a letter that follows a letter is lower-cased, a letter that
  follows anything else (or starts the string) is upper-cased. The flag says whether the
  previous character was a letter.
\<close>

fun ascii_title_from :: "bool \<Rightarrow> string \<Rightarrow> string" where
  "ascii_title_from prev [] = []"
| "ascii_title_from prev (c # cs) =
     (if is_lower c then (if prev then c else ascii_upper_char c) # ascii_title_from True cs
      else if is_upper c then (if prev then ascii_lower_char c else c) # ascii_title_from True cs
      else c # ascii_title_from False cs)"

definition ascii_title :: "string \<Rightarrow> string" where
  "ascii_title s = ascii_title_from False s"

text \<open>\<^verbatim>\<open>s.replace(a, b)\<close> for one-character \<^verbatim>\<open>a\<close>; \<^verbatim>\<open>s.replace(a, '')\<close> drops \<^verbatim>\<open>a\<close>.\<close>

definition replace_char :: "char \<Rightarrow> char \<Rightarrow> string \<Rightarrow> string" where
  "replace_char a b s = map (\<lambda>c. if c = a then b else c) s"

definition remove_char :: "char \<Rightarrow> string \<Rightarrow> string" where
  "remove_char a s = filter (\<lambda>c. c \<noteq> a) s"

text \<open>\<^verbatim>\<open>s in t\<close> on strings: \<^verbatim>\<open>s\<close> starts at some position of \<^verbatim>\<open>t\<close>.\<close>

fun py_in :: "string \<Rightarrow> string \<Rightarrow> bool" where
  "py_in s [] = (s = [])"
| "py_in s (c # t) = (prefix s (c # t) \<or> py_in s t)"

text \<open>\<^verbatim>\<open>str(n)\<close> of a non-negative integer, as an f-string writes \<^verbatim>\<open>len(...)\<close>.\<close>

definition digit_char :: "nat \<Rightarrow> char" where
  "digit_char d = ''0123456789'' ! d"

fun str_nat :: "nat \<Rightarrow> string" where
  "str_nat n = (if n < 10 then [digit_char n] else str_nat (n div 10) @ [digit_char (n mod 10)])"

section \<open>The wired-up script, \<^verbatim>\<open>predict.py\<close>\<close>

subsection \<open>Collaborators\<close>

text \<open>
  The district profile table is a pandas frame read from a CSV file: column names and
  rows of cells. A cell is missing (\<open>Missing\<close>, pandas' NaN), a string (\<open>Text\<close>), or a
  number or truth value, given by its \<^verbatim>\<open>str()\<close> text (\<open>Number\<close>).
\<close>

datatype cell = Missing | Text string | Number string

record dataframe =
  df_columns :: "string list"
  df_rows :: "cell list list"

text \<open>What \<^verbatim>\<open>load_model\<close> finds at \<^verbatim>\<open>THREAT_PROFILE_FILE\<close>.\<close>

datatype csv_file = Absent | Unreadable | Table dataframe

text \<open>
  The reverse geocoder either raises or returns \<^verbatim>\<open>None\<close> or a location; of a location
  the code reads only \<^verbatim>\<open>raw.get('address')\<close>, a dict of strings or \<^verbatim>\<open>None\<close>.
\<close>

datatype geocoder_error = GeocoderTimedOut | GeocoderServiceError | OtherException

type_synonym address = "(string \<times> string) list"

datatype reverse_result = Raises geocoder_error | Returns "address option option"

text \<open>A news article is a dict; the code reads its keys \<^verbatim>\<open>title\<close>, \<^verbatim>\<open>source\<close> and \<^verbatim>\<open>url\<close>
  with \<^verbatim>\<open>get\<close>, and whatever value is stored there comes back.\<close>

type_synonym article = pydict

text \<open>An element of \<^verbatim>\<open>threats_detected\<close>. Its title is a string, since \<^verbatim>\<open>lower\<close> was
  called on it; its source and URL are whatever the article holds.\<close>

record threat =
  t_title :: string
  t_source :: json
  t_url :: json
  t_district :: string

definition threat_dict :: "threat \<Rightarrow> json" where
  "threat_dict t =
     JObj [(''title'', JStr (t_title t)),
           (''source'', t_source t),
           (''url'', t_url t),
           (''district'', JStr (t_district t))]"

subsection \<open>The model object\<close>

definition THREAT_KEYWORDS :: "string list" where
  "THREAT_KEYWORDS =
     [''protest'', ''riot'', ''unrest'', ''violence'', ''flood'', ''cyclone'', ''disaster'',
      ''scam'', ''theft'', ''robbery'', ''accident'']"

record TravelSafetyMLModel =
  model_loaded :: bool
  data_loaded :: bool
  model_version :: string
  threat_profiles_df :: "dataframe option"
  geolocator :: "pyfloat \<times> pyfloat \<Rightarrow> reverse_result"

definition init :: "(pyfloat \<times> pyfloat \<Rightarrow> reverse_result) \<Rightarrow> TravelSafetyMLModel" where
  "init nominatim =
     \<lparr> model_loaded = False, data_loaded = False, model_version = ''1.0'',
       threat_profiles_df = None, geolocator = nominatim \<rparr>"

definition load_model :: "TravelSafetyMLModel \<Rightarrow> csv_file \<Rightarrow> TravelSafetyMLModel" where
  "load_model self file =
     (case file of
        Table df \<Rightarrow> self\<lparr> threat_profiles_df := Some df, model_loaded := True \<rparr>
      | Absent \<Rightarrow> self\<lparr> model_loaded := False \<rparr>
      | Unreadable \<Rightarrow> self\<lparr> model_loaded := False \<rparr>)"

text \<open>\<^verbatim>\<open>a or b\<close> on values that are \<^verbatim>\<open>None\<close> or a string: \<^verbatim>\<open>a\<close> when it is a non-empty
  string, \<^verbatim>\<open>b\<close> otherwise.\<close>

definition py_or :: "string option \<Rightarrow> string option \<Rightarrow> string option" where
  "py_or a b = (case a of Some (c # cs) \<Rightarrow> a | _ \<Rightarrow> b)"

definition get_district_from_coordinates ::
    "TravelSafetyMLModel \<Rightarrow> pyfloat \<Rightarrow> pyfloat \<Rightarrow> string option" where
  "get_district_from_coordinates self latitude longitude =
     (case geolocator self (latitude, longitude) of
        Raises e \<Rightarrow> None
      | Returns None \<Rightarrow> None
      | Returns (Some None) \<Rightarrow> None
      | Returns (Some (Some [])) \<Rightarrow> None
      | Returns (Some (Some addr)) \<Rightarrow>
          py_or (map_of addr ''city_district'')
            (py_or (map_of addr ''suburb'')
              (py_or (map_of addr ''city'')
                (py_or (map_of addr ''county'') (map_of addr ''state_district'')))))"

definition clean_value :: "string \<Rightarrow> string" where
  "clean_value v = remove_char (CHR 0x27) (remove_char (CHR '']'') (remove_char (CHR ''['') v))"

definition threat_line :: "python \<Rightarrow> string \<Rightarrow> string \<Rightarrow> string" where
  "threat_line py key v =
     [CHR 0x0A] @ ''- '' @ str_title py (replace_char (CHR ''_'') (CHR '' '') key) @ '': ''
       @ clean_value v"

text \<open>\<^verbatim>\<open>pd.notna(value)\<close> and \<^verbatim>\<open>str(value)\<close> of a cell.\<close>

definition cell_text :: "cell \<Rightarrow> string option" where
  "cell_text c = (case c of Missing \<Rightarrow> None | Text s \<Rightarrow> Some s | Number s \<Rightarrow> Some s)"

fun threat_message :: "python \<Rightarrow> (string \<times> cell) list \<Rightarrow> string \<Rightarrow> string" where
  "threat_message py [] msg = msg"
| "threat_message py ((key, v) # items) msg =
     (case cell_text v of
        Some s \<Rightarrow> if key \<noteq> ''District''
                  then threat_message py items (msg @ threat_line py key s)
                  else threat_message py items msg
      | None \<Rightarrow> threat_message py items msg)"

text \<open>
  \<^verbatim>\<open>get_district_threats\<close>. The first test of the source reads
  \<^verbatim>\<open>not self.threat_profiles_df is not None or district_name is None\<close>, that is: the frame
  is \<^verbatim>\<open>None\<close>, or the name is. Two things raise inside the \<^verbatim>\<open>try\<close> and fall through to the
  last \<^verbatim>\<open>return\<close>: a frame without a \<^verbatim>\<open>District\<close> column, and the accessor \<^verbatim>\<open>.str\<close> on a
  \<^verbatim>\<open>District\<close> column that is not a column of strings (a column with rows and no string
  among them, which \<^verbatim>\<open>read_csv\<close> types as numbers). In a column of strings only a string
  cell compares equal to the name.
\<close>

definition district_cell :: "string list \<Rightarrow> cell list \<Rightarrow> cell" where
  "district_cell cols row =
     (case map_of (zip cols row) ''District'' of Some c \<Rightarrow> c | None \<Rightarrow> Missing)"

definition is_text :: "cell \<Rightarrow> bool" where
  "is_text c = (case c of Text s \<Rightarrow> True | _ \<Rightarrow> False)"

definition string_column :: "dataframe \<Rightarrow> bool" where
  "string_column df =
     (df_rows df = [] \<or> list_ex (\<lambda>row. is_text (district_cell (df_columns df) row)) (df_rows df))"

definition row_matches :: "python \<Rightarrow> string list \<Rightarrow> string \<Rightarrow> cell list \<Rightarrow> bool" where
  "row_matches py cols district_name row =
     (case district_cell cols row of
        Text v \<Rightarrow> str_lower py v = str_lower py district_name
      | _ \<Rightarrow> False)"

definition get_district_threats ::
    "python \<Rightarrow> TravelSafetyMLModel \<Rightarrow> string option \<Rightarrow> string" where
  "get_district_threats py self district_name =
     (case (threat_profiles_df self, district_name) of
        (Some df, Some d) \<Rightarrow>
          (if ''District'' \<notin> set (df_columns df)
           then ''No specific threat data available for this district''
           else if \<not> string_column df
           then ''No specific threat data available for this district''
           else (case filter (row_matches py (df_columns df) d) (df_rows df) of
                   row # _ \<Rightarrow> threat_message py (zip (df_columns df) row) ''''
                 | [] \<Rightarrow> ''No specific threat data available for this district''))
      | _ \<Rightarrow> ''No threat data available'')"

definition get_mock_news_articles :: "article list" where
  "get_mock_news_articles =
     [[(''title'', JStr ''Heavy rains and flood warnings issued for Delhi''),
       (''source'', JObj [(''name'', JStr ''Indian News'')]),
       (''url'', JStr ''https://example.com/delhi-flood'')],
      [(''title'', JStr ''Mumbai traffic chaos due to political protest''),
       (''source'', JObj [(''name'', JStr ''Local Times'')]),
       (''url'', JStr ''https://example.com/mumbai-protest'')],
      [(''title'', JStr ''Tourist scams on the rise in Jaipur''),
       (''source'', JObj [(''name'', JStr ''Travel Journal'')]),
       (''url'', JStr ''https://example.com/jaipur-scams'')],
      [(''title'', JStr ''Road accidents increase in Bangalore''),
       (''source'', JObj [(''name'', JStr ''City News'')]),
       (''url'', JStr ''https://example.com/bangalore-accidents'')],
      [(''title'', JStr ''Theft incidents reported in Chennai''),
       (''source'', JObj [(''name'', JStr ''Local Herald'')]),
       (''url'', JStr ''https://example.com/chennai-theft'')]]"

subsection \<open>The classifier\<close>

text \<open>
  The test of the loop in \<^verbatim>\<open>analyze_threats\<close>:
  \<^verbatim>\<open>any(keyword in title.lower() for keyword in THREAT_KEYWORDS) and
  district_name.lower() in title.lower()\<close>.
\<close>

definition mentions_threat :: "python \<Rightarrow> string \<Rightarrow> string \<Rightarrow> bool" where
  "mentions_threat py district_name title =
     (list_ex (\<lambda>keyword. py_in keyword (str_lower py title)) THREAT_KEYWORDS
      \<and> py_in (str_lower py district_name) (str_lower py title))"

text \<open>\<^verbatim>\<open>article.get('title', '')\<close>, \<^verbatim>\<open>article.get('source', {})\<close> and \<^verbatim>\<open>article.get('url')\<close>.\<close>

definition get_title :: "article \<Rightarrow> json" where
  "get_title a = (case map_of a ''title'' of None \<Rightarrow> JStr '''' | Some v \<Rightarrow> v)"

definition get_source :: "article \<Rightarrow> json" where
  "get_source a = (case map_of a ''source'' of None \<Rightarrow> JObj [] | Some v \<Rightarrow> v)"

definition get_url :: "article \<Rightarrow> json" where
  "get_url a = (case map_of a ''url'' of None \<Rightarrow> JNull | Some v \<Rightarrow> v)"

text \<open>The dict appended for a match; \<^verbatim>\<open>.get('name')\<close> raises when the source is not a
  dict.\<close>

definition new_threat :: "string \<Rightarrow> string \<Rightarrow> article \<Rightarrow> string + threat" where
  "new_threat district_name title a =
     (case py_get (get_source a) ''name'' of
        Inl e \<Rightarrow> Inl e
      | Inr name \<Rightarrow>
          Inr \<lparr> t_title = title, t_source = name, t_url = get_url a,
                t_district = district_name \<rparr>)"

text \<open>
  The \<^verbatim>\<open>for article in news_articles\<close> loop; the last argument is the list
  \<^verbatim>\<open>threats_detected\<close> built so far, to which a match is appended. \<^verbatim>\<open>title.lower()\<close> is
  the first thing the test evaluates (the keyword list is not empty), and it raises when
  the title is not a string. An exception ends the loop: the result is \<open>Inl\<close> its
  message.
\<close>

fun detect_threats ::
    "python \<Rightarrow> string \<Rightarrow> article list \<Rightarrow> threat list \<Rightarrow> string + threat list" where
  "detect_threats py district_name [] threats_detected = Inr threats_detected"
| "detect_threats py district_name (a # news) threats_detected =
     (case get_title a of
        JStr title \<Rightarrow>
          if mentions_threat py district_name title
          then (case new_threat district_name title a of
                  Inl e \<Rightarrow> Inl e
                | Inr t \<Rightarrow> detect_threats py district_name news (threats_detected @ [t]))
          else detect_threats py district_name news threats_detected
      | v \<Rightarrow> Inl (no_attribute v ''lower''))"

definition risk_of :: "threat list \<Rightarrow> string" where
  "risk_of threats_detected =
     (if length threats_detected > 0
      then (if length threats_detected \<ge> 2 then ''high'' else ''medium'')
      else ''low'')"

definition confidence_of :: "threat list \<Rightarrow> real" where
  "confidence_of threats_detected =
     (if length threats_detected > 0
      then (if length threats_detected \<ge> 2 then 0.9 else 0.8)
      else 0.7)"

definition history_line :: "string \<Rightarrow> string" where
  "history_line threat_profile =
     (if \<not> py_in ''No specific threat data'' threat_profile
      then ''Historical threat data available for this district''
      else ''Limited historical threat data for this district'')"

definition generate_insights :: "string \<Rightarrow> threat list \<Rightarrow> string \<Rightarrow> string list" where
  "generate_insights district_name threats_detected threat_profile =
     [''Analyzing safety conditions in '' @ district_name]
     @ (if length threats_detected > 0
        then (''Found '' @ str_nat (length threats_detected) @ '' active threat(s) in the area'')
             # map (\<lambda>t. ''Active threat: '' @ t_title t) threats_detected
        else [''No active threats detected in recent news''])
     @ [history_line threat_profile]
     @ [''Analysis based on real-time news and historical data'']"

text \<open>The three recommendation headers start with a symbol outside ASCII; it is written
  here as the bytes the source file holds.\<close>

definition high_mark :: string where
  "high_mark = [CHR 0xC3, CHR 0xA2, CHR 0xC5, CHR 0xA1, CHR 0xC2, CHR 0xA0, CHR 0xC3, CHR 0xAF,
                CHR 0xC2, CHR 0xB8]"

definition medium_mark :: string where
  "medium_mark = [CHR 0xC3, CHR 0xB0, CHR 0xC5, CHR 0xB8, CHR 0xC5, CHR 0xB8, CHR 0xC2, CHR 0xA1]"

definition low_mark :: string where
  "low_mark = [CHR 0xC3, CHR 0xB0, CHR 0xC5, CHR 0xB8, CHR 0xC5, CHR 0xB8, CHR 0xC2, CHR 0xA2]"

definition generate_recommendations :: "string \<Rightarrow> threat list \<Rightarrow> string list" where
  "generate_recommendations risk_level threats_detected =
     (if risk_level = ''high''
      then [high_mark @ '' HIGH RISK: Avoid this area if possible'',
            ''Stay alert and aware of your surroundings'',
            ''Consider alternative routes or postpone travel'',
            ''Keep emergency contacts readily available'']
      else if risk_level = ''medium''
      then [medium_mark @ '' MODERATE RISK: Exercise caution'',
            ''Be extra vigilant in this area'',
            ''Avoid isolated or poorly lit areas'',
            ''Stay informed about local conditions'']
      else [low_mark @ '' LOW RISK: Normal safety precautions apply'',
            ''Maintain general awareness of surroundings'',
            ''Follow standard safety practices''])
     @ (if length threats_detected > 0
        then [''Monitor local news for updates'', ''Consider using alternative transportation'']
        else [])"

definition generate_prediction :: "string \<Rightarrow> string \<Rightarrow> threat list \<Rightarrow> string" where
  "generate_prediction district_name risk_level threats_detected =
     (if risk_level = ''high''
      then ''High risk detected in '' @ district_name
           @ ''. Multiple threats identified. Avoid if possible.''
      else if risk_level = ''medium''
      then ''Moderate risk in '' @ district_name
           @ ''. Some safety concerns present. Exercise caution.''
      else ''Low risk in '' @ district_name
           @ ''. Area appears generally safe for normal activities.'')"

definition check_safety_alert :: "string \<Rightarrow> threat list \<Rightarrow> json" where
  "check_safety_alert risk_level threats_detected =
     (if risk_level = ''high'' \<and> length threats_detected > 0
      then JObj [(''type'', JStr ''high_risk_area''),
                 (''severity'', JStr ''high''),
                 (''message'', JStr (''High risk area detected with ''
                    @ str_nat (length threats_detected)
                    @ '' active threat(s). Please exercise extreme caution.''))]
      else if risk_level = ''medium'' \<and> length threats_detected > 0
      then JObj [(''type'', JStr ''moderate_risk''),
                 (''severity'', JStr ''medium''),
                 (''message'', JStr (''Moderate risk detected with ''
                    @ str_nat (length threats_detected)
                    @ '' active threat(s). Please be cautious.''))]
      else JNull)"

definition get_fallback_result :: "TravelSafetyMLModel \<Rightarrow> string \<Rightarrow> pydict" where
  "get_fallback_result self error_message =
     [(''risk_level'', JStr ''unknown''),
      (''confidence'', JFloat 0.0),
      (''prediction'', JStr (''Analysis failed: '' @ error_message)),
      (''insights'', JList [JStr ''Unable to analyze location'', JStr ''Please try again'']),
      (''recommendations'', JList [JStr ''Use general safety precautions'', JStr ''Stay alert'']),
      (''safety_alert'', JNull),
      (''model_version'', JStr (model_version self)),
      (''processing_time'', JFloat 0.0),
      (''district'', JStr ''Unknown''),
      (''threats_detected'', JInt 0),
      (''threat_details'', JList [])]"

text \<open>
  \<^verbatim>\<open>analyze_threats\<close>, with the list that \<^verbatim>\<open>get_mock_news_articles\<close> returns as the
  argument \<open>news_articles\<close>, and the seconds between the two readings of the clock as
  \<open>elapsed\<close>. \<^verbatim>\<open>if not district_name\<close> holds of \<^verbatim>\<open>None\<close> and of the empty string.
  \<^verbatim>\<open>get_district_from_coordinates\<close> and \<^verbatim>\<open>get_district_threats\<close> catch their own
  exceptions; an exception of the loop reaches the handler at the end of the function,
  which returns the fallback result with the message of the exception.
\<close>

definition analyze_articles ::
    "python \<Rightarrow> article list \<Rightarrow> TravelSafetyMLModel \<Rightarrow> pyfloat \<Rightarrow> pyfloat \<Rightarrow> pyfloat \<Rightarrow> string
      \<Rightarrow> real \<Rightarrow> pydict" where
  "analyze_articles py news_articles self latitude longitude accuracy user_id elapsed =
     (case get_district_from_coordinates self latitude longitude of
        None \<Rightarrow> get_fallback_result self ''Could not determine district from coordinates''
      | Some [] \<Rightarrow> get_fallback_result self ''Could not determine district from coordinates''
      | Some district_name \<Rightarrow>
          (let threat_profile = get_district_threats py self (Some district_name)
           in case detect_threats py district_name news_articles [] of
                Inl e \<Rightarrow> get_fallback_result self (''Analysis error: '' @ e)
              | Inr threats_detected \<Rightarrow>
          (let risk_level = risk_of threats_detected;
               confidence = confidence_of threats_detected;
               insights = generate_insights district_name threats_detected threat_profile;
               recommendations = generate_recommendations risk_level threats_detected;
               prediction = generate_prediction district_name risk_level threats_detected;
               safety_alert = check_safety_alert risk_level threats_detected
           in [(''risk_level'', JStr risk_level),
               (''confidence'', JFloat confidence),
               (''prediction'', JStr prediction),
               (''insights'', JList (map JStr insights)),
               (''recommendations'', JList (map JStr recommendations)),
               (''safety_alert'', safety_alert),
               (''model_version'', JStr (model_version self)),
               (''processing_time'', JFloat elapsed),
               (''district'', JStr district_name),
               (''threats_detected'', JInt (int (length threats_detected))),
               (''threat_details'', JList (map threat_dict threats_detected))])))"

definition analyze_threats ::
    "python \<Rightarrow> TravelSafetyMLModel \<Rightarrow> pyfloat \<Rightarrow> pyfloat \<Rightarrow> pyfloat \<Rightarrow> string \<Rightarrow> real
      \<Rightarrow> pydict" where
  "analyze_threats py = analyze_articles py get_mock_news_articles"

subsection \<open>The command line\<close>

text \<open>
  What a run of the script depends on: Python itself, the profile file, the geocoding
  service and the clock. A run yields the values printed on standard output, each the
  argument of one \<^verbatim>\<open>json.dumps\<close>, and the exit code. Messages on standard error are left
  out.
\<close>

record environment =
  builtins :: python
  profile_file :: csv_file
  nominatim :: "pyfloat \<times> pyfloat \<Rightarrow> reverse_result"
  elapsed_seconds :: real

definition usage_error :: json where
  "usage_error =
     JObj [(''error'', JStr
       ''Invalid arguments. Usage: python predict.py <latitude> <longitude> <accuracy> <user_id>'')]"

definition error_result :: "string \<Rightarrow> pydict" where
  "error_result e =
     [(''error'', JStr e),
      (''risk_level'', JStr ''unknown''),
      (''confidence'', JFloat 0.0),
      (''prediction'', JStr ''Error occurred during analysis''),
      (''insights'', JList [JStr ''Model error occurred'']),
      (''recommendations'', JList [JStr ''Please try again or contact support'']),
      (''safety_alert'', JNull),
      (''model_version'', JStr ''1.0''),
      (''processing_time'', JFloat 0.0),
      (''district'', JStr ''Unknown''),
      (''threats_detected'', JInt 0),
      (''threat_details'', JList [])]"

definition main :: "environment \<Rightarrow> string list \<Rightarrow> json list \<times> nat" where
  "main env argv =
     (if length argv \<noteq> 5 then ([usage_error], 1)
      else case float_of (builtins env) (argv ! 1) of
        Inl e \<Rightarrow> ([JObj (error_result e)], 1)
      | Inr latitude \<Rightarrow>
      (case float_of (builtins env) (argv ! 2) of
        Inl e \<Rightarrow> ([JObj (error_result e)], 1)
      | Inr longitude \<Rightarrow>
      (case float_of (builtins env) (argv ! 3) of
        Inl e \<Rightarrow> ([JObj (error_result e)], 1)
      | Inr accuracy \<Rightarrow>
          (let user_id = argv ! 4;
               model = load_model (init (nominatim env)) (profile_file env);
               result = analyze_threats (builtins env) model latitude longitude accuracy
                          user_id (elapsed_seconds env)
           in ([JObj result], 0)))))"

section \<open>The templated script, \<^verbatim>\<open>predict_template.py\<close>\<close>

text \<open>
  The names of this script that the wired-up one also uses carry the prefix \<open>template_\<close>.
  Its \<^verbatim>\<open>load_model\<close> and \<^verbatim>\<open>load_data\<close> only set a flag; its \<^verbatim>\<open>predict\<close> compares floats
  and builds strings, none of which raises, so the handler of \<^verbatim>\<open>predict\<close> has no case.
\<close>

record SafetyMLModel =
  template_model_loaded :: bool
  template_data_loaded :: bool
  template_model_version :: string

definition template_init :: SafetyMLModel where
  "template_init =
     \<lparr> template_model_loaded = False, template_data_loaded = False,
       template_model_version = ''1.0'' \<rparr>"

definition template_load_model :: "SafetyMLModel \<Rightarrow> SafetyMLModel" where
  "template_load_model self = self\<lparr> template_model_loaded := True \<rparr>"

definition load_data :: "SafetyMLModel \<Rightarrow> string \<Rightarrow> SafetyMLModel" where
  "load_data self csv_path = self\<lparr> template_data_loaded := True \<rparr>"

definition calculate_risk_level :: "pyfloat \<Rightarrow> pyfloat \<Rightarrow> pyfloat \<Rightarrow> string" where
  "calculate_risk_level lat lng accuracy =
     (if flt (Finite 50) accuracy then ''high''
      else if (fle (Finite 23.0) lat \<and> fle lat (Finite double_23_1))
              \<and> (fle (Finite 72.5) lng \<and> fle lng (Finite double_72_6)) then ''medium''
      else ''low'')"

text \<open>The confidence is one of four literals, given like every \<open>JFloat\<close> by its decimal
  numeral; the comparisons of \<^verbatim>\<open>_check_safety_alert\<close> with the literals \<^verbatim>\<open>0.8\<close> and \<^verbatim>\<open>0.7\<close>
  come out on the numerals as they do on the doubles.\<close>

definition calculate_confidence :: "pyfloat \<Rightarrow> real" where
  "calculate_confidence accuracy =
     (if flt accuracy (Finite 10) then 0.95
      else if flt accuracy (Finite 25) then 0.85
      else if flt accuracy (Finite 50) then 0.70
      else 0.50)"

definition template_generate_prediction :: "string \<Rightarrow> string" where
  "template_generate_prediction risk_level =
     (case map_of [(''low'', ''Location appears safe for normal activities''),
                   (''medium'', ''Exercise caution in this area''),
                   (''high'', ''High risk area - avoid if possible'')] risk_level of
        Some p \<Rightarrow> p
      | None \<Rightarrow> ''Unknown risk level'')"

definition template_generate_insights :: "pyfloat \<Rightarrow> pyfloat \<Rightarrow> string \<Rightarrow> string list" where
  "template_generate_insights lat lng risk_level =
     (if risk_level = ''high''
      then [''High-risk area detected'', ''Historical incident data shows elevated risk'']
      else if risk_level = ''medium''
      then [''Moderate risk factors present'', ''Some safety concerns in this area'']
      else [''Area appears generally safe'', ''Low historical incident rate''])"

definition template_generate_recommendations :: "string \<Rightarrow> string list" where
  "template_generate_recommendations risk_level =
     (if risk_level = ''high''
      then [''Avoid staying in this area for extended periods'',
            ''Stay alert and aware of surroundings'',
            ''Consider alternative routes if possible'']
      else if risk_level = ''medium''
      then [''Be cautious and aware of your surroundings'', ''Avoid isolated areas'']
      else [''Continue normal activities with standard safety precautions'',
            ''Maintain general awareness''])"

definition template_check_safety_alert :: "string \<Rightarrow> real \<Rightarrow> json" where
  "template_check_safety_alert risk_level confidence =
     (if risk_level = ''high'' \<and> confidence > 0.8
      then JObj [(''type'', JStr ''high_risk_area''),
                 (''severity'', JStr ''high''),
                 (''message'', JStr
                    ''You are in a high-risk area. Please exercise extreme caution.'')]
      else if risk_level = ''medium'' \<and> confidence > 0.7
      then JObj [(''type'', JStr ''moderate_risk''),
                 (''severity'', JStr ''medium''),
                 (''message'', JStr ''Moderate risk detected. Please be cautious.'')]
      else JNull)"

definition predict ::
    "SafetyMLModel \<Rightarrow> pyfloat \<Rightarrow> pyfloat \<Rightarrow> pyfloat \<Rightarrow> string \<Rightarrow> real \<Rightarrow> pydict" where
  "predict self latitude longitude accuracy user_id elapsed =
     (let risk_level = calculate_risk_level latitude longitude accuracy;
          confidence = calculate_confidence accuracy;
          prediction = template_generate_prediction risk_level;
          insights = template_generate_insights latitude longitude risk_level;
          recommendations = template_generate_recommendations risk_level;
          safety_alert = template_check_safety_alert risk_level confidence
      in [(''risk_level'', JStr risk_level),
          (''confidence'', JFloat confidence),
          (''prediction'', JStr prediction),
          (''insights'', JList (map JStr insights)),
          (''recommendations'', JList (map JStr recommendations)),
          (''safety_alert'', safety_alert),
          (''model_version'', JStr (template_model_version self)),
          (''processing_time'', JFloat elapsed)])"

definition template_error_result :: "string \<Rightarrow> pydict" where
  "template_error_result e =
     [(''error'', JStr e),
      (''risk_level'', JStr ''unknown''),
      (''confidence'', JFloat 0.0),
      (''prediction'', JStr ''Error occurred''),
      (''insights'', JList [JStr ''Model error'']),
      (''recommendations'', JList [JStr ''Please try again'']),
      (''safety_alert'', JNull),
      (''model_version'', JStr ''1.0''),
      (''processing_time'', JFloat 0.0)]"

text \<open>The templated \<^verbatim>\<open>main\<close>; of the environment it uses \<^verbatim>\<open>float()\<close> and the clock.\<close>

definition template_main :: "environment \<Rightarrow> string list \<Rightarrow> json list \<times> nat" where
  "template_main env argv =
     (if length argv \<noteq> 5 then ([usage_error], 1)
      else case float_of (builtins env) (argv ! 1) of
        Inl e \<Rightarrow> ([JObj (template_error_result e)], 1)
      | Inr latitude \<Rightarrow>
      (case float_of (builtins env) (argv ! 2) of
        Inl e \<Rightarrow> ([JObj (template_error_result e)], 1)
      | Inr longitude \<Rightarrow>
      (case float_of (builtins env) (argv ! 3) of
        Inl e \<Rightarrow> ([JObj (template_error_result e)], 1)
      | Inr accuracy \<Rightarrow>
          (let user_id = argv ! 4;
               model = load_data (template_load_model template_init) ''data.csv'';
               result = predict model latitude longitude accuracy user_id (elapsed_seconds env)
           in ([JObj result], 0)))))"

section \<open>The documented result\<close>

text \<open>The fields of an assessment result as the specification lists them.\<close>

definition documented_fields :: "string list" where
  "documented_fields =
     [''risk_level'', ''confidence'', ''prediction'', ''insights'', ''recommendations'',
      ''safety_alert'', ''model_version'', ''processing_time'', ''district'',
      ''threats_detected'', ''threat_details'']"

text \<open>The object a run printed, when it printed exactly one.\<close>

definition printed :: "json list \<times> nat \<Rightarrow> pydict option" where
  "printed out = (case fst out of [JObj d] \<Rightarrow> Some d | _ \<Rightarrow> None)"

definition exit_code :: "json list \<times> nat \<Rightarrow> nat" where
  "exit_code out = snd out"

text \<open>\<^verbatim>\<open>threats_detected\<close> is the length of \<^verbatim>\<open>threat_details\<close>.\<close>

definition count_matches_details :: "pydict \<Rightarrow> bool" where
  "count_matches_details d =
     (case (field d ''threats_detected'', field d ''threat_details'') of
        (Some (JInt n), Some (JList ts)) \<Rightarrow> n = int (length ts)
      | _ \<Rightarrow> False)"

text \<open>A field of the object under \<^verbatim>\<open>safety_alert\<close>, and of an element of \<^verbatim>\<open>threat_details\<close>.\<close>

definition alert_field :: "pydict \<Rightarrow> string \<Rightarrow> json option" where
  "alert_field d k = (case field d ''safety_alert'' of Some (JObj a) \<Rightarrow> map_of a k | _ \<Rightarrow> None)"

definition member_field :: "json \<Rightarrow> string \<Rightarrow> json option" where
  "member_field e k = (case e of JObj a \<Rightarrow> map_of a k | _ \<Rightarrow> None)"

text \<open>
  Of a run with four arguments: whether \<^verbatim>\<open>float()\<close> accepts the three numeric ones, and
  what the resolver then answers for the coordinates.
\<close>

definition float_args_ok :: "environment \<Rightarrow> string list \<Rightarrow> bool" where
  "float_args_ok env argv =
     (case (float_of (builtins env) (argv ! 1), float_of (builtins env) (argv ! 2), float_of (builtins env) (argv ! 3)) of
        (Inr latitude, Inr longitude, Inr accuracy) \<Rightarrow> True
      | _ \<Rightarrow> False)"

definition district_of_run :: "environment \<Rightarrow> string list \<Rightarrow> string option" where
  "district_of_run env argv =
     (case (float_of (builtins env) (argv ! 1), float_of (builtins env) (argv ! 2)) of
        (Inr latitude, Inr longitude) \<Rightarrow>
          get_district_from_coordinates
            (load_model (init (nominatim env)) (profile_file env)) latitude longitude
      | _ \<Rightarrow> None)"

definition unresolved :: "string option \<Rightarrow> bool" where
  "unresolved district_name = (case district_name of None \<Rightarrow> True | Some d \<Rightarrow> d = [])"

text \<open>
  Of the loop: whether an article passes its test, whether an entry is the one appended
  for an article, the message of the exception the loop raises on a list of articles, if
  any, and whether a call of \<^verbatim>\<open>analyze_threats\<close> ends in its handler. An article whose
  title is a string and whose source is a dict raises nothing.
\<close>

definition matches :: "python \<Rightarrow> string \<Rightarrow> article \<Rightarrow> bool" where
  "matches py district_name a =
     (case get_title a of JStr title \<Rightarrow> mentions_threat py district_name title | _ \<Rightarrow> False)"

definition made_from :: "string \<Rightarrow> threat \<Rightarrow> article \<Rightarrow> bool" where
  "made_from district_name t a =
     (case get_title a of
        JStr title \<Rightarrow> new_threat district_name title a = Inr t
      | _ \<Rightarrow> False)"

definition analysis_error :: "python \<Rightarrow> string \<Rightarrow> article list \<Rightarrow> string option" where
  "analysis_error py district_name news_articles =
     (case detect_threats py district_name news_articles [] of
        Inl e \<Rightarrow> Some e
      | Inr ts \<Rightarrow> None)"

definition analysis_raised ::
    "python \<Rightarrow> article list \<Rightarrow> TravelSafetyMLModel \<Rightarrow> pyfloat \<Rightarrow> pyfloat \<Rightarrow> bool" where
  "analysis_raised py news_articles self latitude longitude =
     (case get_district_from_coordinates self latitude longitude of
        None \<Rightarrow> False
      | Some d \<Rightarrow> d \<noteq> [] \<and> analysis_error py d news_articles \<noteq> None)"

definition well_formed :: "article \<Rightarrow> bool" where
  "well_formed a =
     (case (get_title a, get_source a) of (JStr t, JObj s) \<Rightarrow> True | _ \<Rightarrow> False)"

subsection \<open>Sample runs\<close>

text \<open>
  A Python that handles ASCII strings and knows three numerals, a geocoder that answers
  every coordinate with the given city, one that times out, and the command line
  \<^verbatim>\<open>predict.py 19.07 72.87 10 u1\<close>.
\<close>

definition sample_float :: "string \<Rightarrow> string + pyfloat" where
  "sample_float s =
     (if s = ''19.07'' then Inr (Finite double_19_07)
      else if s = ''72.87'' then Inr (Finite double_72_87)
      else if s = ''10'' then Inr (Finite 10)
      else Inl (''could not convert string to float: '' @ [CHR 0x27] @ s @ [CHR 0x27]))"

definition ascii_python :: python where
  "ascii_python =
     \<lparr> str_lower = ascii_lower, str_title = ascii_title, float_of = sample_float \<rparr>"

definition city_geocoder :: "string \<Rightarrow> pyfloat \<times> pyfloat \<Rightarrow> reverse_result" where
  "city_geocoder city = (\<lambda>coordinates. Returns (Some (Some [(''city'', city)])))"

definition failing_geocoder :: "pyfloat \<times> pyfloat \<Rightarrow> reverse_result" where
  "failing_geocoder = (\<lambda>coordinates. Raises GeocoderTimedOut)"

definition sample_env :: "(pyfloat \<times> pyfloat \<Rightarrow> reverse_result) \<Rightarrow> csv_file \<Rightarrow> environment" where
  "sample_env geo csv =
     \<lparr> builtins = ascii_python, profile_file = csv, nominatim = geo,
       elapsed_seconds = 0.01 \<rparr>"

definition sample_argv :: "string list" where
  "sample_argv = [''predict.py'', ''19.07'', ''72.87'', ''10'', ''u1'']"

definition sample_table :: dataframe where
  "sample_table =
     \<lparr> df_columns = [''District'', ''crime_rate'', ''flood_risk''],
       df_rows = [[Text ''Mumbai'', Text ''[high]'', Missing],
                  [Text ''Pune'', Text ''[low]'', Text ''[medium]'']] \<rparr>"

text \<open>An article whose title is \<^verbatim>\<open>null\<close>.\<close>

definition untitled_article :: article where
  "untitled_article = [(''title'', JNull), (''url'', JStr ''https://example.com/untitled'')]"

section \<open>Properties\<close>

subsection \<open>Auxiliary facts\<close>

text \<open>\<open>py_in\<close> is the substring relation.\<close>

lemma py_in_iff: "py_in s t \<longleftrightarrow> (\<exists>p q. t = p @ s @ q)"
proof (induction t)
  case Nil
  then show ?case by auto
next
  case (Cons c t)
  have "(\<exists>p q. c # t = p @ s @ q) \<longleftrightarrow> prefix s (c # t) \<or> (\<exists>p q. t = p @ s @ q)"
  proof
    assume "\<exists>p q. c # t = p @ s @ q"
    then obtain p q where pq: "c # t = p @ s @ q" by blast
    show "prefix s (c # t) \<or> (\<exists>p q. t = p @ s @ q)"
    proof (cases p)
      case Nil
      with pq show ?thesis by (auto simp: prefix_def)
    next
      case (Cons x p')
      with pq have "t = p' @ s @ q" by simp
      then show ?thesis by blast
    qed
  next
    assume "prefix s (c # t) \<or> (\<exists>p q. t = p @ s @ q)"
    then show "\<exists>p q. c # t = p @ s @ q"
    proof
      assume "prefix s (c # t)"
      then obtain q where "c # t = s @ q" by (auto simp: prefix_def)
      then have "c # t = [] @ s @ q" by simp
      then show ?thesis by blast
    next
      assume "\<exists>p q. t = p @ s @ q"
      then obtain p q where "t = p @ s @ q" by blast
      then have "c # t = (c # p) @ s @ q" by simp
      then show ?thesis by blast
    qed
  qed
  with Cons show ?case by simp
qed

lemma mentions_threat_iff:
  "mentions_threat py d t \<longleftrightarrow>
     (\<exists>k \<in> {''protest'', ''riot'', ''unrest'', ''violence'', ''flood'', ''cyclone'', ''disaster'',
              ''scam'', ''theft'', ''robbery'', ''accident''}. \<exists>p q. str_lower py t = p @ k @ q)
     \<and> (\<exists>p q. str_lower py t = p @ str_lower py d @ q)"
  unfolding mentions_threat_def THREAT_KEYWORDS_def py_in_iff by simp

lemma matches_iff:
  "matches py d a \<longleftrightarrow>
     (\<exists>title. get_title a = JStr title
        \<and> (\<exists>k \<in> {''protest'', ''riot'', ''unrest'', ''violence'', ''flood'', ''cyclone'',
                 ''disaster'', ''scam'', ''theft'', ''robbery'', ''accident''}.
             \<exists>p q. str_lower py title = p @ k @ q)
        \<and> (\<exists>p q. str_lower py title = p @ str_lower py d @ q))"
  unfolding matches_def mentions_threat_iff by (cases "get_title a") simp_all

text \<open>When the loop ends without an exception, it has appended, in order, one entry for
  each article that passes its test.\<close>

lemma detect_threats_Inr:
  "detect_threats py d news acc = Inr ts \<Longrightarrow>
   \<exists>new. ts = acc @ new \<and> list_all2 (made_from d) new (filter (matches py d) news)"
proof (induction news arbitrary: acc)
  case Nil
  then show ?case by simp
next
  case (Cons a news)
  from Cons.prems obtain title where title: "get_title a = JStr title"
    by (cases "get_title a") simp_all
  show ?case
  proof (cases "mentions_threat py d title")
    case False
    with Cons.prems title have "detect_threats py d news acc = Inr ts" by simp
    from Cons.IH [OF this] False title show ?thesis by (simp add: matches_def)
  next
    case True
    with Cons.prems title obtain t where t: "new_threat d title a = Inr t"
      by (cases "new_threat d title a") simp_all
    with Cons.prems title True have "detect_threats py d news (acc @ [t]) = Inr ts" by simp
    from Cons.IH [OF this] obtain new where
      "ts = (acc @ [t]) @ new" "list_all2 (made_from d) new (filter (matches py d) news)"
      by blast
    then have "ts = acc @ (t # new)"
      and "list_all2 (made_from d) (t # new) (filter (matches py d) (a # news))"
      using True title t by (simp_all add: matches_def made_from_def)
    then show ?thesis by blast
  qed
qed

lemma detect_threats_length:
  "detect_threats py d news [] = Inr ts \<Longrightarrow> length ts = length (filter (matches py d) news)"
  using detect_threats_Inr [of py d news "[]" ts] by (auto dest: list_all2_lengthD)

lemma detect_threats_district:
  "detect_threats py d news [] = Inr ts \<Longrightarrow> t \<in> set ts \<Longrightarrow> t_district t = d"
proof -
  assume "detect_threats py d news [] = Inr ts" and t: "t \<in> set ts"
  then have l: "list_all2 (made_from d) ts (filter (matches py d) news)"
    using detect_threats_Inr [of py d news "[]" ts] by auto
  from t obtain i where i: "i < length ts" "ts ! i = t" by (auto simp: in_set_conv_nth)
  with l have "made_from d t (filter (matches py d) news ! i)"
    by (auto dest: list_all2_nthD)
  then show ?thesis
    by (auto simp: made_from_def new_threat_def split: json.splits sum.splits)
qed

text \<open>Articles with a string for a title and a dict for a source raise nothing; the mock
  articles are such.\<close>

lemma detect_threats_total:
  "list_all well_formed news \<Longrightarrow> \<exists>ts. detect_threats py d news acc = Inr ts"
proof (induction news arbitrary: acc)
  case Nil
  then show ?case by simp
next
  case (Cons a news)
  then obtain title s where "get_title a = JStr title" "get_source a = JObj s"
    by (auto simp: well_formed_def split: json.splits)
  with Cons show ?case by (simp add: new_threat_def py_get_def)
qed

lemma mock_well_formed: "list_all well_formed get_mock_news_articles"
  by (simp add: get_mock_news_articles_def well_formed_def get_title_def get_source_def)

lemma mock_never_raises: "analysis_error py d get_mock_news_articles = None"
  using detect_threats_total [OF mock_well_formed, of py d "[]"]
  by (auto simp: analysis_error_def)

lemma analysis_error_None:
  "analysis_error py d news = None \<longleftrightarrow> (\<exists>ts. detect_threats py d news [] = Inr ts)"
  by (cases "detect_threats py d news []") (simp_all add: analysis_error_def)

text \<open>The three shapes of what \<open>analyze_articles\<close> returns.\<close>

lemma analyze_articles_unresolved:
  "unresolved (get_district_from_coordinates self lat lon) \<Longrightarrow>
   analyze_articles py news self lat lon acc uid el =
     get_fallback_result self ''Could not determine district from coordinates''"
  by (auto simp: unresolved_def analyze_articles_def split: option.splits list.splits)

lemma analyze_articles_raised:
  "get_district_from_coordinates self lat lon = Some d \<Longrightarrow> d \<noteq> [] \<Longrightarrow>
   detect_threats py d news [] = Inl e \<Longrightarrow>
   analyze_articles py news self lat lon acc uid el =
     get_fallback_result self (''Analysis error: '' @ e)"
  by (cases d) (simp_all add: analyze_articles_def Let_def)

lemma analyze_articles_resolved:
  "get_district_from_coordinates self lat lon = Some d \<Longrightarrow> d \<noteq> [] \<Longrightarrow>
   detect_threats py d news [] = Inr ts \<Longrightarrow>
   analyze_articles py news self lat lon acc uid el =
      [(''risk_level'', JStr (risk_of ts)),
       (''confidence'', JFloat (confidence_of ts)),
       (''prediction'', JStr (generate_prediction d (risk_of ts) ts)),
       (''insights'', JList (map JStr (generate_insights d ts
           (get_district_threats py self (Some d))))),
       (''recommendations'', JList (map JStr (generate_recommendations (risk_of ts) ts))),
       (''safety_alert'', check_safety_alert (risk_of ts) ts),
       (''model_version'', JStr (model_version self)),
       (''processing_time'', JFloat el),
       (''district'', JStr d),
       (''threats_detected'', JInt (int (length ts))),
       (''threat_details'', JList (map threat_dict ts))]"
  by (cases d) (simp_all add: analyze_articles_def Let_def)

text \<open>A call ends in a fallback result, for one of the two reasons, or in a computed
  result.\<close>

lemma analyze_articles_cases:
  "((unresolved (get_district_from_coordinates self lat lon)
       \<or> analysis_raised py news self lat lon)
      \<and> (\<exists>msg. analyze_articles py news self lat lon acc uid el
                 = get_fallback_result self msg))
   \<or> (\<not> unresolved (get_district_from_coordinates self lat lon)
      \<and> \<not> analysis_raised py news self lat lon
      \<and> (\<exists>d ts. get_district_from_coordinates self lat lon = Some d \<and> d \<noteq> []
            \<and> detect_threats py d news [] = Inr ts))"
proof (cases "get_district_from_coordinates self lat lon")
  case None
  then have "unresolved (get_district_from_coordinates self lat lon)"
    by (simp add: unresolved_def)
  then show ?thesis using analyze_articles_unresolved by blast
next
  case (Some d)
  show ?thesis
  proof (cases "d = []")
    case True
    with Some have "unresolved (get_district_from_coordinates self lat lon)"
      by (simp add: unresolved_def)
    then show ?thesis using analyze_articles_unresolved by blast
  next
    case False
    show ?thesis
    proof (cases "detect_threats py d news []")
      case (Inl e)
      with Some False have "analysis_raised py news self lat lon"
        by (simp add: analysis_raised_def analysis_error_def)
      then show ?thesis using analyze_articles_raised [OF Some False Inl] by blast
    next
      case (Inr ts)
      with Some False have "\<not> analysis_raised py news self lat lon"
        and "\<not> unresolved (get_district_from_coordinates self lat lon)"
        by (simp_all add: analysis_raised_def analysis_error_def unresolved_def)
      with Some False Inr show ?thesis by blast
    qed
  qed
qed

lemma risk_of_values:
  "risk_of ts = (if length ts = 0 then ''low'' else if length ts = 1 then ''medium'' else ''high'')"
proof -
  have "length ts = 0 \<or> length ts = 1 \<or> 2 \<le> length ts" by arith
  then show ?thesis by (auto simp: risk_of_def)
qed

lemma confidence_of_values:
  "confidence_of ts = (if length ts = 0 then 0.7 else if length ts = 1 then 0.8 else 0.9)"
proof -
  have "length ts = 0 \<or> length ts = 1 \<or> 2 \<le> length ts" by arith
  then show ?thesis by (auto simp: confidence_of_def)
qed

subsection \<open>Facts about the sample runs\<close>

lemma ascii_python_lower: "lower_on_ascii ascii_python"
  by (simp add: lower_on_ascii_def ascii_python_def)

lemma mentions_threat_ascii:
  "lower_on_ascii py \<Longrightarrow> list_all is_ascii d \<Longrightarrow> list_all is_ascii t \<Longrightarrow>
   mentions_threat py d t = mentions_threat ascii_python d t"
  by (simp add: mentions_threat_def lower_on_ascii_def ascii_python_def)

lemma city_resolved:
  "c \<noteq> [] \<Longrightarrow>
   get_district_from_coordinates (load_model (init (city_geocoder c)) csv) lat lon = Some c"
  by (cases csv; cases c)
     (simp_all add: get_district_from_coordinates_def load_model_def init_def city_geocoder_def
        py_or_def)

lemma failing_unresolved:
  "get_district_from_coordinates (load_model (init failing_geocoder) csv) lat lon = None"
  by (cases csv)
     (simp_all add: get_district_from_coordinates_def load_model_def init_def
        failing_geocoder_def)

lemma chennai_matches:
  "filter (matches ascii_python ''Chennai'') get_mock_news_articles
     = [[(''title'', JStr ''Theft incidents reported in Chennai''),
         (''source'', JObj [(''name'', JStr ''Local Herald'')]),
         (''url'', JStr ''https://example.com/chennai-theft'')]]"
  by code_simp

lemma chennai_detected:
  "detect_threats ascii_python ''Chennai'' get_mock_news_articles []
     = Inr [\<lparr> t_title = ''Theft incidents reported in Chennai'',
               t_source = JStr ''Local Herald'',
               t_url = JStr ''https://example.com/chennai-theft'',
               t_district = ''Chennai'' \<rparr>]"
  by code_simp

lemma goa_detected: "detect_threats ascii_python ''Goa'' get_mock_news_articles [] = Inr []"
  by code_simp

lemma untitled_raises:
  "detect_threats py d [untitled_article] []
     = Inl (no_attribute JNull ''lower'')"
  by (simp add: untitled_article_def get_title_def)

lemma no_attribute_lower_of_null:
  "no_attribute JNull ''lower''
     = [CHR 0x27] @ ''NoneType'' @ [CHR 0x27] @ '' object has no attribute '' @ [CHR 0x27]
         @ ''lower'' @ [CHR 0x27]"
  by (simp add: no_attribute_def type_name_def)

lemma sample_main:
  "main (sample_env geo csv) sample_argv
     = ([JObj (analyze_threats ascii_python (load_model (init geo) csv)
           (Finite double_19_07) (Finite double_72_87) (Finite 10) ''u1'' 0.01)], 0)"
  by (simp add: main_def sample_env_def sample_argv_def sample_float_def ascii_python_def
        Let_def)

lemma sample_args_ok: "float_args_ok (sample_env geo csv) sample_argv"
  by (simp add: float_args_ok_def sample_env_def sample_argv_def sample_float_def
        ascii_python_def)

subsection \<open>Risk level and confidence\<close>

text \<open>
  Claim C1. In a run of the classifier whose district was resolved (a non-empty name
  \<open>d\<close>) and whose loop raised no exception, let \<open>n\<close> be the number of articles that pass
  the test of the loop. The result reports \<open>n\<close> as \<^verbatim>\<open>threats_detected\<close>, and its risk level
  and confidence are decided by \<open>n\<close> alone: low and 0.7 for \<open>n = 0\<close>, medium and 0.8 for
  \<open>n = 1\<close>, high and 0.9 for \<open>n \<ge> 2\<close>. This holds for every list of articles, the mock list
  among them, and for every behaviour of \<^verbatim>\<open>str.lower\<close>.
\<close>

theorem risk_and_confidence_by_match_count:
  assumes "get_district_from_coordinates self latitude longitude = Some d"
    and "d \<noteq> []"
    and "analysis_error py d news_articles = None"
    and "n = length (filter (matches py d) news_articles)"
  shows "field (analyze_articles py news_articles self latitude longitude accuracy user_id
             elapsed) ''threats_detected'' = Some (JInt (int n))
       \<and> field (analyze_articles py news_articles self latitude longitude accuracy user_id
             elapsed) ''risk_level''
         = Some (JStr (if n = 0 then ''low'' else if n = 1 then ''medium'' else ''high''))
       \<and> field (analyze_articles py news_articles self latitude longitude accuracy user_id
             elapsed) ''confidence''
         = Some (JFloat (if n = 0 then 0.7 else if n = 1 then 0.8 else 0.9))"
proof -
  from assms(3) obtain ts where ts: "detect_threats py d news_articles [] = Inr ts"
    by (auto simp: analysis_error_None)
  have len: "length ts = n"
    using assms(4) detect_threats_length [OF ts] by simp
  show ?thesis
    unfolding analyze_articles_resolved [OF assms(1) assms(2) ts] field_def
    by (simp add: risk_of_values confidence_of_values len)
qed

theorem risk_and_confidence_by_match_count_witness:
  "get_district_from_coordinates (load_model (init (city_geocoder ''Chennai'')) Absent)
      (Finite double_19_07) (Finite double_72_87) = Some ''Chennai''
   \<and> ''Chennai'' \<noteq> []
   \<and> analysis_error ascii_python ''Chennai'' get_mock_news_articles = None
   \<and> (1::nat) = length (filter (matches ascii_python ''Chennai'') get_mock_news_articles)
   \<and> field (analyze_threats ascii_python (load_model (init (city_geocoder ''Chennai'')) Absent)
        (Finite double_19_07) (Finite double_72_87) (Finite 10) ''u1'' 0.01)
        ''threats_detected'' = Some (JInt 1)
   \<and> field (analyze_threats ascii_python (load_model (init (city_geocoder ''Chennai'')) Absent)
        (Finite double_19_07) (Finite double_72_87) (Finite 10) ''u1'' 0.01) ''risk_level''
       = Some (JStr ''medium'')
   \<and> field (analyze_threats ascii_python (load_model (init (city_geocoder ''Chennai'')) Absent)
        (Finite double_19_07) (Finite double_72_87) (Finite 10) ''u1'' 0.01) ''confidence''
       = Some (JFloat 0.8)"
proof -
  have h2: "''Chennai'' \<noteq> []" by simp
  have h1: "get_district_from_coordinates (load_model (init (city_geocoder ''Chennai'')) Absent)
      (Finite double_19_07) (Finite double_72_87) = Some ''Chennai''"
    by (rule city_resolved [OF h2])
  have h3: "analysis_error ascii_python ''Chennai'' get_mock_news_articles = None"
    by (rule mock_never_raises)
  have h4: "(1::nat) = length (filter (matches ascii_python ''Chennai'')
                                get_mock_news_articles)"
    by (simp add: chennai_matches)
  from risk_and_confidence_by_match_count [OF h1 h2 h3 h4, of "Finite 10" "''u1''" "0.01"]
    h1 h3 h4
  show ?thesis by (simp add: analyze_threats_def)
qed

subsection \<open>The match rule\<close>

lemma ascii_titles:
  "list_all is_ascii ''Mumbai''"
  "list_all is_ascii ''CHENNAI''"
  "list_all is_ascii ''Mumbai traffic chaos due to political protest''"
  "list_all is_ascii ''Heavy rains and flood warnings issued for Delhi''"
  "list_all is_ascii ''Theft incidents reported in Chennai''"
  by code_simp+

lemma mumbai_mentioned:
  "mentions_threat ascii_python ''Mumbai'' ''Mumbai traffic chaos due to political protest''"
  by code_simp

lemma delhi_not_mentioned:
  "\<not> mentions_threat ascii_python ''Mumbai''
       ''Heavy rains and flood warnings issued for Delhi''"
  by code_simp

lemma chennai_mentioned:
  "mentions_threat ascii_python ''CHENNAI'' ''Theft incidents reported in Chennai''"
  by code_simp

text \<open>
  Claim C2. When the loop ends without an exception, the entries it returns are, in
  order, those made from exactly the articles whose title, lower-cased, contains one of
  the eleven keywords as a substring and contains the lower-cased district name as a
  substring; it ends so on every list of articles whose titles are strings and whose
  sources are dicts. With a \<^verbatim>\<open>str.lower\<close> that folds ASCII letters, the title "Mumbai
  traffic chaos due to political protest" is one match for the district Mumbai, the
  title "Heavy rains and flood warnings issued for Delhi" is none, and, the case of the
  letters being folded on both sides, the title "Theft incidents reported in Chennai" is
  one match for the district written CHENNAI.
\<close>

theorem threat_match_rule:
  "(detect_threats py d news_articles [] = Inr ts \<longrightarrow>
      list_all2 (made_from d) ts
        (filter (\<lambda>a. \<exists>title. get_title a = JStr title
           \<and> (\<exists>k \<in> {''protest'', ''riot'', ''unrest'', ''violence'', ''flood'', ''cyclone'',
                    ''disaster'', ''scam'', ''theft'', ''robbery'', ''accident''}.
                \<exists>p q. str_lower py title = p @ k @ q)
           \<and> (\<exists>p q. str_lower py title = p @ str_lower py d @ q)) news_articles))
   \<and> (list_all well_formed news_articles \<longrightarrow>
        (\<exists>ts'. detect_threats py d news_articles [] = Inr ts'))
   \<and> (lower_on_ascii py \<longrightarrow>
        detect_threats py ''Mumbai''
          [[(''title'', JStr ''Mumbai traffic chaos due to political protest'')]] []
        = Inr [\<lparr> t_title = ''Mumbai traffic chaos due to political protest'',
                 t_source = JNull, t_url = JNull, t_district = ''Mumbai'' \<rparr>]
      \<and> detect_threats py ''Mumbai''
          [[(''title'', JStr ''Heavy rains and flood warnings issued for Delhi'')]] []
        = Inr []
      \<and> detect_threats py ''CHENNAI''
          [[(''title'', JStr ''Theft incidents reported in Chennai'')]] []
        = Inr [\<lparr> t_title = ''Theft incidents reported in Chennai'',
                 t_source = JNull, t_url = JNull, t_district = ''CHENNAI'' \<rparr>])"
proof -
  have rule: "list_all2 (made_from d) ts
        (filter (\<lambda>a. \<exists>title. get_title a = JStr title
           \<and> (\<exists>k \<in> {''protest'', ''riot'', ''unrest'', ''violence'', ''flood'', ''cyclone'',
                    ''disaster'', ''scam'', ''theft'', ''robbery'', ''accident''}.
                \<exists>p q. str_lower py title = p @ k @ q)
           \<and> (\<exists>p q. str_lower py title = p @ str_lower py d @ q)) news_articles)"
    if "detect_threats py d news_articles [] = Inr ts"
    using detect_threats_Inr [OF that] unfolding matches_iff by simp
  have total: "\<exists>ts'. detect_threats py d news_articles [] = Inr ts'"
    if "list_all well_formed news_articles"
    by (rule detect_threats_total [OF that])
  have examples:
     "detect_threats py ''Mumbai''
          [[(''title'', JStr ''Mumbai traffic chaos due to political protest'')]] []
        = Inr [\<lparr> t_title = ''Mumbai traffic chaos due to political protest'',
                 t_source = JNull, t_url = JNull, t_district = ''Mumbai'' \<rparr>]
      \<and> detect_threats py ''Mumbai''
          [[(''title'', JStr ''Heavy rains and flood warnings issued for Delhi'')]] []
        = Inr []
      \<and> detect_threats py ''CHENNAI''
          [[(''title'', JStr ''Theft incidents reported in Chennai'')]] []
        = Inr [\<lparr> t_title = ''Theft incidents reported in Chennai'',
                 t_source = JNull, t_url = JNull, t_district = ''CHENNAI'' \<rparr>]"
    if py: "lower_on_ascii py"
  proof -
    have 1: "mentions_threat py ''Mumbai'' ''Mumbai traffic chaos due to political protest''"
      using mentions_threat_ascii [OF py ascii_titles(1) ascii_titles(3)] mumbai_mentioned
      by simp
    have 2: "\<not> mentions_threat py ''Mumbai''
                 ''Heavy rains and flood warnings issued for Delhi''"
      using mentions_threat_ascii [OF py ascii_titles(1) ascii_titles(4)] delhi_not_mentioned
      by simp
    have 3: "mentions_threat py ''CHENNAI'' ''Theft incidents reported in Chennai''"
      using mentions_threat_ascii [OF py ascii_titles(2) ascii_titles(5)] chennai_mentioned
      by simp
    from 1 2 3 show ?thesis
      by (simp add: get_title_def new_threat_def py_get_def get_source_def get_url_def)
  qed
  from rule total examples show ?thesis by blast
qed

theorem threat_match_rule_witness:
  "lower_on_ascii ascii_python
   \<and> list_all well_formed get_mock_news_articles
   \<and> detect_threats ascii_python ''CHENNAI''
          [[(''title'', JStr ''Theft incidents reported in Chennai'')]] []
        = Inr [\<lparr> t_title = ''Theft incidents reported in Chennai'',
                 t_source = JNull, t_url = JNull, t_district = ''CHENNAI'' \<rparr>]
   \<and> (\<exists>ts. detect_threats ascii_python ''Chennai'' get_mock_news_articles [] = Inr ts
         \<and> list_all2 (made_from ''Chennai'') ts
             [[(''title'', JStr ''Theft incidents reported in Chennai''),
               (''source'', JObj [(''name'', JStr ''Local Herald'')]),
               (''url'', JStr ''https://example.com/chennai-theft'')]])"
proof -
  note rule = threat_match_rule [of ascii_python "''Chennai''" get_mock_news_articles]
  from rule mock_well_formed obtain ts
    where ts: "detect_threats ascii_python ''Chennai'' get_mock_news_articles [] = Inr ts"
    by blast
  from threat_match_rule [of ascii_python "''Chennai''" get_mock_news_articles ts] ts
  have "list_all2 (made_from ''Chennai'') ts
          (filter (matches ascii_python ''Chennai'') get_mock_news_articles)"
    unfolding matches_iff by blast
  then have l: "list_all2 (made_from ''Chennai'') ts
             [[(''title'', JStr ''Theft incidents reported in Chennai''),
               (''source'', JObj [(''name'', JStr ''Local Herald'')]),
               (''url'', JStr ''https://example.com/chennai-theft'')]]"
    by (simp only: chennai_matches)
  from rule ascii_python_lower
  have "detect_threats ascii_python ''CHENNAI''
          [[(''title'', JStr ''Theft incidents reported in Chennai'')]] []
        = Inr [\<lparr> t_title = ''Theft incidents reported in Chennai'',
                 t_source = JNull, t_url = JNull, t_district = ''CHENNAI'' \<rparr>]"
    by blast
  with ascii_python_lower mock_well_formed ts l show ?thesis by blast
qed

subsection \<open>The history line of the insights\<close>

lemma goa_run_insights:
  "field (analyze_threats ascii_python (load_model (init (city_geocoder ''Goa'')) csv)
            lat lon acc uid el) ''insights''
   = Some (JList
        [JStr ''Analyzing safety conditions in Goa'',
         JStr ''No active threats detected in recent news'',
         JStr (history_line
           (get_district_threats ascii_python (load_model (init (city_geocoder ''Goa'')) csv)
              (Some ''Goa''))),
         JStr ''Analysis based on real-time news and historical data''])"
proof -
  have ne: "''Goa'' \<noteq> []" by simp
  show ?thesis
    unfolding analyze_threats_def
      analyze_articles_resolved [OF city_resolved [OF ne] ne goa_detected] field_def
    by (simp add: generate_insights_def)
qed

lemma unloaded_profile:
  "get_district_threats py (load_model (init geo) Absent) (Some d)
     = ''No threat data available''"
  by (simp add: get_district_threats_def load_model_def init_def)

lemma goa_profile:
  "get_district_threats ascii_python (load_model (init geo) (Table sample_table))
     (Some ''Goa'')
     = ''No specific threat data available for this district''"
  by (simp add: get_district_threats_def load_model_def init_def sample_table_def
        string_column_def district_cell_def is_text_def
        row_matches_def ascii_python_def ascii_lower_def ascii_lower_char_def)

lemma history_of_unloaded:
  "history_line ''No threat data available''
     = ''Historical threat data available for this district''"
  by code_simp

lemma history_of_unknown_district:
  "history_line ''No specific threat data available for this district''
     = ''Limited historical threat data for this district''"
  by code_simp

text \<open>
  Claim C3. The insight about historical data should be the "limited" line whenever the
  profile lookup returned a no-data answer, also when the profile table was never loaded.
  The code does not do this: with the profile file absent the lookup answers
  "No threat data available", which the test of \<^verbatim>\<open>_generate_insights\<close> (it looks for
  "No specific threat data") does not recognise, and the run reports "Historical threat
  data available for this district". With the table loaded and the district not in it,
  the lookup answers the other no-data sentence and the run reports the "limited" line.
\<close>

theorem unloaded_table_reports_history:
  "get_district_threats ascii_python (load_model (init (city_geocoder ''Goa'')) Absent)
     (Some ''Goa'')
     = ''No threat data available''
   \<and> map_option (\<lambda>d. field d ''insights'')
        (printed (main (sample_env (city_geocoder ''Goa'') Absent) sample_argv))
     = Some (Some (JList
        [JStr ''Analyzing safety conditions in Goa'',
         JStr ''No active threats detected in recent news'',
         JStr ''Historical threat data available for this district'',
         JStr ''Analysis based on real-time news and historical data'']))
   \<and> get_district_threats ascii_python
        (load_model (init (city_geocoder ''Goa'')) (Table sample_table)) (Some ''Goa'')
     = ''No specific threat data available for this district''
   \<and> map_option (\<lambda>d. field d ''insights'')
        (printed (main (sample_env (city_geocoder ''Goa'') (Table sample_table)) sample_argv))
     = Some (Some (JList
        [JStr ''Analyzing safety conditions in Goa'',
         JStr ''No active threats detected in recent news'',
         JStr ''Limited historical threat data for this district'',
         JStr ''Analysis based on real-time news and historical data'']))"
  unfolding sample_main printed_def
  by (simp add: goa_run_insights unloaded_profile goa_profile history_of_unloaded
        history_of_unknown_district)

subsection \<open>Facts about the results\<close>

lemma alert_values:
  "check_safety_alert (risk_of ts) ts =
     (if length ts = 0 then JNull
      else if length ts = 1
      then JObj [(''type'', JStr ''moderate_risk''),
                 (''severity'', JStr ''medium''),
                 (''message'', JStr (''Moderate risk detected with '' @ str_nat (length ts)
                    @ '' active threat(s). Please be cautious.''))]
      else JObj [(''type'', JStr ''high_risk_area''),
                 (''severity'', JStr ''high''),
                 (''message'', JStr (''High risk area detected with '' @ str_nat (length ts)
                    @ '' active threat(s). Please exercise extreme caution.''))])"
proof -
  have "length ts = 0 \<or> length ts = 1 \<or> 2 \<le> length ts" by arith
  then show ?thesis by (auto simp: risk_of_def check_safety_alert_def)
qed

lemma fallback_fields:
  "field (get_fallback_result self msg) ''risk_level'' = Some (JStr ''unknown'')"
  "field (get_fallback_result self msg) ''confidence'' = Some (JFloat 0)"
  "field (get_fallback_result self msg) ''safety_alert'' = Some JNull"
  "field (get_fallback_result self msg) ''district'' = Some (JStr ''Unknown'')"
  "field (get_fallback_result self msg) ''threats_detected'' = Some (JInt 0)"
  "field (get_fallback_result self msg) ''threat_details'' = Some (JList [])"
  by (simp_all add: field_def get_fallback_result_def)

lemma error_result_fields:
  "field (error_result e) ''risk_level'' = Some (JStr ''unknown'')"
  "field (error_result e) ''confidence'' = Some (JFloat 0)"
  "field (error_result e) ''safety_alert'' = Some JNull"
  "field (error_result e) ''threats_detected'' = Some (JInt 0)"
  "field (error_result e) ''threat_details'' = Some (JList [])"
  by (simp_all add: field_def error_result_def)

lemma resolved_fields:
  assumes "get_district_from_coordinates self lat lon = Some d" and "d \<noteq> []"
    and "detect_threats py d news [] = Inr ts"
  shows "field (analyze_articles py news self lat lon acc uid el) ''risk_level''
           = Some (JStr (risk_of ts))"
    and "field (analyze_articles py news self lat lon acc uid el) ''confidence''
           = Some (JFloat (confidence_of ts))"
    and "field (analyze_articles py news self lat lon acc uid el) ''safety_alert''
           = Some (check_safety_alert (risk_of ts) ts)"
    and "field (analyze_articles py news self lat lon acc uid el) ''district''
           = Some (JStr d)"
    and "field (analyze_articles py news self lat lon acc uid el) ''threats_detected''
           = Some (JInt (int (length ts)))"
    and "field (analyze_articles py news self lat lon acc uid el) ''threat_details''
           = Some (JList (map threat_dict ts))"
  unfolding analyze_articles_resolved [OF assms] field_def by simp_all

lemma risk_of_known: "risk_of ts \<noteq> ''unknown''"
  by (simp add: risk_of_def)

lemma confidence_of_positive: "confidence_of ts \<noteq> 0"
  by (simp add: confidence_of_def)

text \<open>A run with four arguments either fails in \<^verbatim>\<open>float()\<close> or prints what
  \<^verbatim>\<open>analyze_threats\<close> returns.\<close>

lemma main_five:
  assumes "length argv = 5"
  shows "(\<not> float_args_ok env argv \<and> (\<exists>e. main env argv = ([JObj (error_result e)], 1)))
       \<or> (float_args_ok env argv \<and>
           (\<exists>lat lon acc.
              main env argv =
                ([JObj (analyze_threats (builtins env)
                    (load_model (init (nominatim env)) (profile_file env))
                    lat lon acc (argv ! 4) (elapsed_seconds env))], 0)
              \<and> district_of_run env argv =
                  get_district_from_coordinates
                    (load_model (init (nominatim env)) (profile_file env)) lat lon))"
  using assms
  by (auto simp: main_def float_args_ok_def district_of_run_def Let_def split: sum.splits)

text \<open>On the mock articles the handler of \<^verbatim>\<open>analyze_threats\<close> is never entered.\<close>

lemma mock_not_raised: "\<not> analysis_raised py get_mock_news_articles self lat lon"
  by (simp add: analysis_raised_def mock_never_raises split: option.splits)

lemma chennai_run:
  "analyze_threats ascii_python (load_model (init (city_geocoder ''Chennai'')) csv)
      lat lon acc uid el
     = [(''risk_level'', JStr ''medium''),
        (''confidence'', JFloat 0.8),
        (''prediction'', JStr (generate_prediction ''Chennai'' ''medium''
            [\<lparr> t_title = ''Theft incidents reported in Chennai'',
               t_source = JStr ''Local Herald'',
               t_url = JStr ''https://example.com/chennai-theft'',
               t_district = ''Chennai'' \<rparr>])),
        (''insights'', JList (map JStr (generate_insights ''Chennai''
            [\<lparr> t_title = ''Theft incidents reported in Chennai'',
               t_source = JStr ''Local Herald'',
               t_url = JStr ''https://example.com/chennai-theft'',
               t_district = ''Chennai'' \<rparr>]
            (get_district_threats ascii_python
               (load_model (init (city_geocoder ''Chennai'')) csv) (Some ''Chennai''))))),
        (''recommendations'', JList (map JStr (generate_recommendations ''medium''
            [\<lparr> t_title = ''Theft incidents reported in Chennai'',
               t_source = JStr ''Local Herald'',
               t_url = JStr ''https://example.com/chennai-theft'',
               t_district = ''Chennai'' \<rparr>]))),
        (''safety_alert'',
           JObj [(''type'', JStr ''moderate_risk''),
                 (''severity'', JStr ''medium''),
                 (''message'', JStr
    ''Moderate risk detected with 1 active threat(s). Please be cautious.'')]),
        (''model_version'',
           JStr (model_version (load_model (init (city_geocoder ''Chennai'')) csv))),
        (''processing_time'', JFloat el),
        (''district'', JStr ''Chennai''),
        (''threats_detected'', JInt 1),
        (''threat_details'', JList
           [JObj [(''title'', JStr ''Theft incidents reported in Chennai''),
                  (''source'', JStr ''Local Herald''),
                  (''url'', JStr ''https://example.com/chennai-theft''),
                  (''district'', JStr ''Chennai'')]])]"
proof -
  have ne: "''Chennai'' \<noteq> []" by simp
  show ?thesis
    unfolding analyze_threats_def
      analyze_articles_resolved [OF city_resolved [OF ne] ne chennai_detected]
    by (simp add: risk_of_def confidence_of_def check_safety_alert_def digit_char_def
          threat_dict_def)
qed

lemma untitled_run:
  "analyze_articles py [untitled_article] (load_model (init (city_geocoder ''Chennai'')) csv)
      lat lon acc uid el
     = get_fallback_result (load_model (init (city_geocoder ''Chennai'')) csv)
         (''Analysis error: '' @ [CHR 0x27] @ ''NoneType'' @ [CHR 0x27]
            @ '' object has no attribute '' @ [CHR 0x27] @ ''lower'' @ [CHR 0x27])"
proof -
  have ne: "''Chennai'' \<noteq> []" by simp
  show ?thesis
    unfolding analyze_articles_raised [OF city_resolved [OF ne] ne untitled_raises]
      no_attribute_lower_of_null
    by simp
qed

subsection \<open>The safety alert\<close>

text \<open>
  Claim C5. In every result of the classifier, for every list of articles, the alert is
  null exactly when the count \<^verbatim>\<open>threats_detected\<close> is 0. When the count is positive the
  alert mirrors the risk level: the level is high and the alert has type
  \<^verbatim>\<open>high_risk_area\<close> and severity high, or the level is medium and the alert has type
  \<^verbatim>\<open>moderate_risk\<close> and severity medium.
\<close>

theorem safety_alert_mirrors_risk:
  assumes "r = analyze_articles py news_articles self latitude longitude accuracy user_id
                 elapsed"
  shows "\<exists>n. field r ''threats_detected'' = Some (JInt (int n))
      \<and> (field r ''safety_alert'' = Some JNull \<longleftrightarrow> n = 0)
      \<and> (n > 0 \<longrightarrow>
           (field r ''risk_level'' = Some (JStr ''high'')
            \<and> alert_field r ''type'' = Some (JStr ''high_risk_area'')
            \<and> alert_field r ''severity'' = Some (JStr ''high''))
         \<or> (field r ''risk_level'' = Some (JStr ''medium'')
            \<and> alert_field r ''type'' = Some (JStr ''moderate_risk'')
            \<and> alert_field r ''severity'' = Some (JStr ''medium'')))"
proof -
  from analyze_articles_cases [of self latitude longitude py news_articles accuracy user_id
      elapsed]
  consider (fallback) msg where "r = get_fallback_result self msg"
    | (computed) d ts where "get_district_from_coordinates self latitude longitude = Some d"
        "d \<noteq> []" "detect_threats py d news_articles [] = Inr ts"
    unfolding assms by blast
  then show ?thesis
  proof cases
    case fallback
    have "field r ''threats_detected'' = Some (JInt (int 0))"
      and "field r ''safety_alert'' = Some JNull"
      unfolding fallback by (simp_all add: fallback_fields)
    then show ?thesis by blast
  next
    case computed
    note f = resolved_fields [OF computed, of accuracy user_id elapsed, folded assms]
    note al = f(3) [unfolded alert_values] and rk = f(1) [unfolded risk_of_values]
    have cases: "length ts = 0 \<or> length ts = 1 \<or> 2 \<le> length ts" by arith
    have a: "field r ''safety_alert'' = Some JNull \<longleftrightarrow> length ts = 0"
      using cases by (auto simp: al)
    have b: "length ts > 0 \<longrightarrow>
           (field r ''risk_level'' = Some (JStr ''high'')
            \<and> alert_field r ''type'' = Some (JStr ''high_risk_area'')
            \<and> alert_field r ''severity'' = Some (JStr ''high''))
         \<or> (field r ''risk_level'' = Some (JStr ''medium'')
            \<and> alert_field r ''type'' = Some (JStr ''moderate_risk'')
            \<and> alert_field r ''severity'' = Some (JStr ''medium''))"
      using cases by (auto simp: alert_field_def al rk)
    from f(5) a b show ?thesis by blast
  qed
qed

theorem safety_alert_mirrors_risk_witness:
  "field (analyze_threats ascii_python (load_model (init (city_geocoder ''Chennai'')) Absent)
       (Finite double_19_07) (Finite double_72_87) (Finite 10) ''u1'' 0.01) ''safety_alert''
     \<noteq> Some JNull
   \<and> field (analyze_threats ascii_python (load_model (init (city_geocoder ''Chennai'')) Absent)
       (Finite double_19_07) (Finite double_72_87) (Finite 10) ''u1'' 0.01) ''risk_level''
       = Some (JStr ''medium'')
   \<and> alert_field (analyze_threats ascii_python
       (load_model (init (city_geocoder ''Chennai'')) Absent)
       (Finite double_19_07) (Finite double_72_87) (Finite 10) ''u1'' 0.01) ''type''
       = Some (JStr ''moderate_risk'')
   \<and> alert_field (analyze_threats ascii_python
       (load_model (init (city_geocoder ''Chennai'')) Absent)
       (Finite double_19_07) (Finite double_72_87) (Finite 10) ''u1'' 0.01) ''severity''
       = Some (JStr ''medium'')"
proof -
  let ?r = "analyze_threats ascii_python (load_model (init (city_geocoder ''Chennai'')) Absent)
       (Finite double_19_07) (Finite double_72_87) (Finite 10) ''u1'' 0.01"
  have r: "?r = analyze_articles ascii_python get_mock_news_articles
       (load_model (init (city_geocoder ''Chennai'')) Absent)
       (Finite double_19_07) (Finite double_72_87) (Finite 10) ''u1'' 0.01"
    by (simp add: analyze_threats_def)
  have td: "field ?r ''threats_detected'' = Some (JInt 1)"
    unfolding chennai_run field_def by simp
  have rl: "field ?r ''risk_level'' = Some (JStr ''medium'')"
    unfolding chennai_run field_def by simp
  from safety_alert_mirrors_risk [OF r] obtain n where
    n: "field ?r ''threats_detected'' = Some (JInt (int n))"
    and a: "field ?r ''safety_alert'' = Some JNull \<longleftrightarrow> n = 0"
    and b: "n > 0 \<longrightarrow>
           (field ?r ''risk_level'' = Some (JStr ''high'')
            \<and> alert_field ?r ''type'' = Some (JStr ''high_risk_area'')
            \<and> alert_field ?r ''severity'' = Some (JStr ''high''))
         \<or> (field ?r ''risk_level'' = Some (JStr ''medium'')
            \<and> alert_field ?r ''type'' = Some (JStr ''moderate_risk'')
            \<and> alert_field ?r ''severity'' = Some (JStr ''medium''))"
    by blast
  from n td have n1: "n = 1" by simp
  with a b rl show ?thesis by auto
qed

subsection \<open>Count and details\<close>

text \<open>
  Claim C6. \<^verbatim>\<open>threats_detected\<close> equals the length of \<^verbatim>\<open>threat_details\<close> in every result:
  in what the classifier returns (a successful analysis or either fallback), in the
  object printed after a hard error, and so in the object that any run with four
  arguments prints.
\<close>

theorem threat_count_is_length_of_details:
  "count_matches_details
     (analyze_articles py news_articles self latitude longitude accuracy user_id elapsed)
   \<and> count_matches_details (error_result e)
   \<and> (length argv = 5 \<longrightarrow>
        (\<exists>d. printed (main env argv) = Some d \<and> count_matches_details d))"
proof -
  have a: "count_matches_details (analyze_articles py' news self lat lon acc uid el)"
    for py' news self lat lon acc uid el
  proof -
    from analyze_articles_cases [of self lat lon py' news acc uid el]
    consider (fallback) msg where
        "analyze_articles py' news self lat lon acc uid el = get_fallback_result self msg"
      | (computed) d ts where "get_district_from_coordinates self lat lon = Some d"
          "d \<noteq> []" "detect_threats py' d news [] = Inr ts"
      by blast
    then show ?thesis
    proof cases
      case fallback
      show ?thesis
        unfolding count_matches_details_def fallback by (simp add: fallback_fields)
    next
      case computed
      show ?thesis
        unfolding count_matches_details_def using resolved_fields [OF computed] by simp
    qed
  qed
  have b: "count_matches_details (error_result x)" for x
    unfolding count_matches_details_def by (simp add: error_result_fields)
  have c: "\<exists>d. printed (main env argv) = Some d \<and> count_matches_details d"
    if "length argv = 5"
    using main_five [OF that, of env] a b by (auto simp: printed_def analyze_threats_def)
  from a b c show ?thesis by blast
qed

theorem threat_count_is_length_of_details_witness:
  "length sample_argv = 5
   \<and> (\<exists>d. printed (main (sample_env (city_geocoder ''Chennai'') Absent) sample_argv) = Some d
          \<and> field d ''threats_detected'' = Some (JInt 1)
          \<and> count_matches_details d)"
proof -
  have h: "length sample_argv = 5" by (simp add: sample_argv_def)
  from threat_count_is_length_of_details
  have "length sample_argv = 5 \<longrightarrow>
        (\<exists>d. printed (main (sample_env (city_geocoder ''Chennai'') Absent) sample_argv) = Some d
           \<and> count_matches_details d)"
    by blast
  with h obtain d
    where d: "printed (main (sample_env (city_geocoder ''Chennai'') Absent) sample_argv)
                = Some d"
      and c: "count_matches_details d"
    by blast
  from d have "field d ''threats_detected'' = Some (JInt 1)"
    unfolding sample_main printed_def chennai_run by (auto simp: field_def)
  with h d c show ?thesis by blast
qed

subsection \<open>The unknown risk level\<close>

text \<open>
  Claim C7. The classifier reports the risk level unknown exactly when the district was
  not resolved (the resolver answered \<^verbatim>\<open>None\<close> or an empty name) or an exception of the
  analysis reached the handler of \<^verbatim>\<open>analyze_threats\<close>; this for every list of articles.
  A run with four arguments prints the level unknown exactly when \<^verbatim>\<open>float()\<close> rejected
  an argument, which is the error that reaches the handler of \<^verbatim>\<open>main\<close>, or the district
  was not resolved; the mock articles of the script raise nothing. In each of these
  cases the confidence is 0.0 and \<^verbatim>\<open>threat_details\<close> is empty.
\<close>

theorem unknown_risk_iff_failure:
  "(field (analyze_articles py news_articles self latitude longitude accuracy user_id elapsed)
       ''risk_level'' = Some (JStr ''unknown'')
     \<longleftrightarrow> unresolved (get_district_from_coordinates self latitude longitude)
         \<or> analysis_raised py news_articles self latitude longitude)
   \<and> (field (analyze_articles py news_articles self latitude longitude accuracy user_id elapsed)
       ''risk_level'' = Some (JStr ''unknown'')
     \<longrightarrow> field (analyze_articles py news_articles self latitude longitude accuracy user_id
                 elapsed) ''confidence'' = Some (JFloat 0)
       \<and> field (analyze_articles py news_articles self latitude longitude accuracy user_id
                 elapsed) ''threat_details'' = Some (JList []))
   \<and> (length argv = 5 \<longrightarrow>
        (\<exists>d. printed (main env argv) = Some d
           \<and> (field d ''risk_level'' = Some (JStr ''unknown'')
                \<longleftrightarrow> \<not> float_args_ok env argv \<or> unresolved (district_of_run env argv))
           \<and> (field d ''risk_level'' = Some (JStr ''unknown'')
                \<longrightarrow> field d ''confidence'' = Some (JFloat 0)
                  \<and> field d ''threat_details'' = Some (JList []))))"
proof -
  have a: "(field (analyze_articles py' news self lat lon acc uid el) ''risk_level''
              = Some (JStr ''unknown'')
            \<longleftrightarrow> unresolved (get_district_from_coordinates self lat lon)
                \<or> analysis_raised py' news self lat lon)
         \<and> (field (analyze_articles py' news self lat lon acc uid el) ''risk_level''
              = Some (JStr ''unknown'')
            \<longrightarrow> field (analyze_articles py' news self lat lon acc uid el) ''confidence''
                  = Some (JFloat 0)
              \<and> field (analyze_articles py' news self lat lon acc uid el) ''threat_details''
                  = Some (JList []))"
    for py' news self lat lon acc uid el
  proof -
    from analyze_articles_cases [of self lat lon py' news acc uid el]
    consider (fallback) msg where
        "unresolved (get_district_from_coordinates self lat lon)
           \<or> analysis_raised py' news self lat lon"
        "analyze_articles py' news self lat lon acc uid el = get_fallback_result self msg"
      | (computed) d ts where
          "\<not> unresolved (get_district_from_coordinates self lat lon)"
          "\<not> analysis_raised py' news self lat lon"
          "get_district_from_coordinates self lat lon = Some d"
          "d \<noteq> []" "detect_threats py' d news [] = Inr ts"
      by blast
    then show ?thesis
    proof cases
      case fallback
      then show ?thesis by (simp add: fallback_fields)
    next
      case computed
      then show ?thesis
        using resolved_fields(1) [OF computed(3,4,5)] by (simp add: risk_of_known)
    qed
  qed
  have c: "\<exists>d. printed (main env argv) = Some d
           \<and> (field d ''risk_level'' = Some (JStr ''unknown'')
                \<longleftrightarrow> \<not> float_args_ok env argv \<or> unresolved (district_of_run env argv))
           \<and> (field d ''risk_level'' = Some (JStr ''unknown'')
                \<longrightarrow> field d ''confidence'' = Some (JFloat 0)
                  \<and> field d ''threat_details'' = Some (JList []))"
    if five: "length argv = 5"
  proof -
    from main_five [OF five, of env]
    consider (hard) e where "\<not> float_args_ok env argv"
        "main env argv = ([JObj (error_result e)], 1)"
      | (run) lat lon acc where "float_args_ok env argv"
        "main env argv =
           ([JObj (analyze_threats (builtins env)
               (load_model (init (nominatim env)) (profile_file env))
               lat lon acc (argv ! 4) (elapsed_seconds env))], 0)"
        "district_of_run env argv =
           get_district_from_coordinates
             (load_model (init (nominatim env)) (profile_file env)) lat lon"
      by blast
    then show ?thesis
    proof cases
      case hard
      then show ?thesis by (simp add: printed_def error_result_fields)
    next
      case run
      show ?thesis
        using a [of "builtins env" get_mock_news_articles
                  "load_model (init (nominatim env)) (profile_file env)" lat lon acc
                  "argv ! 4" "elapsed_seconds env"] run
        by (simp add: printed_def analyze_threats_def mock_not_raised)
    qed
  qed
  from a c show ?thesis by blast
qed

theorem unknown_risk_iff_failure_witness:
  "length sample_argv = 5
   \<and> unresolved (district_of_run (sample_env failing_geocoder Absent) sample_argv)
   \<and> (\<exists>d. printed (main (sample_env failing_geocoder Absent) sample_argv) = Some d
         \<and> field d ''risk_level'' = Some (JStr ''unknown'')
         \<and> field d ''confidence'' = Some (JFloat 0)
         \<and> field d ''threat_details'' = Some (JList []))
   \<and> \<not> unresolved (get_district_from_coordinates
          (load_model (init (city_geocoder ''Chennai'')) Absent)
          (Finite double_19_07) (Finite double_72_87))
   \<and> analysis_raised ascii_python [untitled_article]
        (load_model (init (city_geocoder ''Chennai'')) Absent)
        (Finite double_19_07) (Finite double_72_87)
   \<and> field (analyze_articles ascii_python [untitled_article]
        (load_model (init (city_geocoder ''Chennai'')) Absent)
        (Finite double_19_07) (Finite double_72_87) (Finite 10) ''u1'' 0.01) ''risk_level''
       = Some (JStr ''unknown'')
   \<and> field (analyze_articles ascii_python [untitled_article]
        (load_model (init (city_geocoder ''Chennai'')) Absent)
        (Finite double_19_07) (Finite double_72_87) (Finite 10) ''u1'' 0.01) ''confidence''
       = Some (JFloat 0)"
proof -
  have h: "length sample_argv = 5" by (simp add: sample_argv_def)
  have u: "unresolved (district_of_run (sample_env failing_geocoder Absent) sample_argv)"
    by (simp add: district_of_run_def sample_env_def sample_argv_def sample_float_def
          ascii_python_def failing_unresolved unresolved_def)
  have ne: "''Chennai'' \<noteq> []" by simp
  have nu: "\<not> unresolved (get_district_from_coordinates
          (load_model (init (city_geocoder ''Chennai'')) Absent)
          (Finite double_19_07) (Finite double_72_87))"
    by (simp add: city_resolved [OF ne] unresolved_def)
  have ar: "analysis_raised ascii_python [untitled_article]
        (load_model (init (city_geocoder ''Chennai'')) Absent)
        (Finite double_19_07) (Finite double_72_87)"
    unfolding analysis_raised_def city_resolved [OF ne] analysis_error_def untitled_raises
    by simp
  note inst = unknown_risk_iff_failure
    [of ascii_python "[untitled_article]" "load_model (init (city_geocoder ''Chennai'')) Absent"
        "Finite double_19_07" "Finite double_72_87" "Finite 10" "''u1''" "0.01"
        sample_argv "sample_env failing_geocoder Absent"]
  from inst h u
  have 1: "\<exists>d. printed (main (sample_env failing_geocoder Absent) sample_argv) = Some d
         \<and> field d ''risk_level'' = Some (JStr ''unknown'')
         \<and> field d ''confidence'' = Some (JFloat 0)
         \<and> field d ''threat_details'' = Some (JList [])"
    by blast
  from inst ar
  have 2: "field (analyze_articles ascii_python [untitled_article]
        (load_model (init (city_geocoder ''Chennai'')) Absent)
        (Finite double_19_07) (Finite double_72_87) (Finite 10) ''u1'' 0.01) ''risk_level''
       = Some (JStr ''unknown'')
     \<and> field (analyze_articles ascii_python [untitled_article]
        (load_model (init (city_geocoder ''Chennai'')) Absent)
        (Finite double_19_07) (Finite double_72_87) (Finite 10) ''u1'' 0.01) ''confidence''
       = Some (JFloat 0)"
    by blast
  from h u 1 nu ar 2 show ?thesis by blast
qed

subsection \<open>The fallback result\<close>

text \<open>
  Claim C8. When district resolution returns \<^verbatim>\<open>None\<close>, the classifier returns the
  canonical fallback result: risk level unknown, confidence 0.0, the two fixed insights,
  the two fixed recommendations, no alert, no threats. A run with four arguments that
  \<^verbatim>\<open>float()\<close> accepts and whose district resolution returns \<^verbatim>\<open>None\<close> prints exactly this
  object and exits with code 0.
\<close>

theorem unresolved_district_gives_fallback:
  "(get_district_from_coordinates self latitude longitude = None \<longrightarrow>
      analyze_articles py news_articles self latitude longitude accuracy user_id elapsed =
        [(''risk_level'', JStr ''unknown''),
         (''confidence'', JFloat 0.0),
         (''prediction'',
            JStr ''Analysis failed: Could not determine district from coordinates''),
         (''insights'', JList [JStr ''Unable to analyze location'', JStr ''Please try again'']),
         (''recommendations'',
            JList [JStr ''Use general safety precautions'', JStr ''Stay alert'']),
         (''safety_alert'', JNull),
         (''model_version'', JStr (model_version self)),
         (''processing_time'', JFloat 0.0),
         (''district'', JStr ''Unknown''),
         (''threats_detected'', JInt 0),
         (''threat_details'', JList [])])
   \<and> (length argv = 5 \<and> float_args_ok env argv \<and> district_of_run env argv = None \<longrightarrow>
      printed (main env argv) = Some
        [(''risk_level'', JStr ''unknown''),
         (''confidence'', JFloat 0.0),
         (''prediction'',
            JStr ''Analysis failed: Could not determine district from coordinates''),
         (''insights'', JList [JStr ''Unable to analyze location'', JStr ''Please try again'']),
         (''recommendations'',
            JList [JStr ''Use general safety precautions'', JStr ''Stay alert'']),
         (''safety_alert'', JNull),
         (''model_version'', JStr ''1.0''),
         (''processing_time'', JFloat 0.0),
         (''district'', JStr ''Unknown''),
         (''threats_detected'', JInt 0),
         (''threat_details'', JList [])]
      \<and> exit_code (main env argv) = 0)"
proof -
  have a: "analyze_articles py' news self lat lon acc uid el =
        [(''risk_level'', JStr ''unknown''),
         (''confidence'', JFloat 0.0),
         (''prediction'',
            JStr ''Analysis failed: Could not determine district from coordinates''),
         (''insights'', JList [JStr ''Unable to analyze location'', JStr ''Please try again'']),
         (''recommendations'',
            JList [JStr ''Use general safety precautions'', JStr ''Stay alert'']),
         (''safety_alert'', JNull),
         (''model_version'', JStr (model_version self)),
         (''processing_time'', JFloat 0.0),
         (''district'', JStr ''Unknown''),
         (''threats_detected'', JInt 0),
         (''threat_details'', JList [])]"
    if "get_district_from_coordinates self lat lon = None"
    for py' news self lat lon acc uid el
  proof -
    from that have "unresolved (get_district_from_coordinates self lat lon)"
      by (simp add: unresolved_def)
    then show ?thesis
      by (simp add: analyze_articles_unresolved get_fallback_result_def)
  qed
  have v: "model_version (load_model (init geo) csv) = ''1.0''" for geo csv
    by (cases csv) (simp_all add: load_model_def init_def)
  have b: "printed (main env argv) = Some
        [(''risk_level'', JStr ''unknown''),
         (''confidence'', JFloat 0.0),
         (''prediction'',
            JStr ''Analysis failed: Could not determine district from coordinates''),
         (''insights'', JList [JStr ''Unable to analyze location'', JStr ''Please try again'']),
         (''recommendations'',
            JList [JStr ''Use general safety precautions'', JStr ''Stay alert'']),
         (''safety_alert'', JNull),
         (''model_version'', JStr ''1.0''),
         (''processing_time'', JFloat 0.0),
         (''district'', JStr ''Unknown''),
         (''threats_detected'', JInt 0),
         (''threat_details'', JList [])]
      \<and> exit_code (main env argv) = 0"
    if five: "length argv = 5" and ok: "float_args_ok env argv"
      and none: "district_of_run env argv = None"
  proof -
    from main_five [OF five, of env] ok obtain lat lon acc where
      m: "main env argv =
           ([JObj (analyze_threats (builtins env)
               (load_model (init (nominatim env)) (profile_file env))
               lat lon acc (argv ! 4) (elapsed_seconds env))], 0)"
      and d: "district_of_run env argv =
           get_district_from_coordinates
             (load_model (init (nominatim env)) (profile_file env)) lat lon"
      by blast
    from d none have
      "get_district_from_coordinates
         (load_model (init (nominatim env)) (profile_file env)) lat lon = None"
      by simp
    from a [OF this] show ?thesis
      by (simp add: m printed_def exit_code_def analyze_threats_def v)
  qed
  from a b show ?thesis by blast
qed

theorem unresolved_district_gives_fallback_witness:
  "length sample_argv = 5
   \<and> float_args_ok (sample_env failing_geocoder Absent) sample_argv
   \<and> district_of_run (sample_env failing_geocoder Absent) sample_argv = None
   \<and> field (the (printed (main (sample_env failing_geocoder Absent) sample_argv)))
        ''risk_level'' = Some (JStr ''unknown'')
   \<and> exit_code (main (sample_env failing_geocoder Absent) sample_argv) = 0"
proof -
  have h: "length sample_argv = 5" by (simp add: sample_argv_def)
  have ok: "float_args_ok (sample_env failing_geocoder Absent) sample_argv"
    by (rule sample_args_ok)
  have u: "district_of_run (sample_env failing_geocoder Absent) sample_argv = None"
    by (simp add: district_of_run_def sample_env_def sample_argv_def sample_float_def
          ascii_python_def failing_unresolved)
  from unresolved_district_gives_fallback h ok u
  have "printed (main (sample_env failing_geocoder Absent) sample_argv) = Some
        [(''risk_level'', JStr ''unknown''),
         (''confidence'', JFloat 0.0),
         (''prediction'',
            JStr ''Analysis failed: Could not determine district from coordinates''),
         (''insights'', JList [JStr ''Unable to analyze location'', JStr ''Please try again'']),
         (''recommendations'',
            JList [JStr ''Use general safety precautions'', JStr ''Stay alert'']),
         (''safety_alert'', JNull),
         (''model_version'', JStr ''1.0''),
         (''processing_time'', JFloat 0.0),
         (''district'', JStr ''Unknown''),
         (''threats_detected'', JInt 0),
         (''threat_details'', JList [])]
      \<and> exit_code (main (sample_env failing_geocoder Absent) sample_argv) = 0"
    by blast
  with h ok u show ?thesis by (simp add: field_def)
qed

subsection \<open>The elements of the details\<close>

text \<open>
  Claim C9. In every result of the classifier each element of \<^verbatim>\<open>threat_details\<close> has a
  \<^verbatim>\<open>district\<close> field equal to the \<^verbatim>\<open>district\<close> field of the result. When the district was
  resolved to \<open>d\<close> and the loop raised nothing, the elements are, one for one and in the
  order of the article list, the entries made from the articles that pass the test of
  the loop: the title of the article, the name of its source, its URL, and \<open>d\<close>.
\<close>

theorem threat_details_district_and_order:
  assumes "r = analyze_articles py news_articles self latitude longitude accuracy user_id
                 elapsed"
  shows "\<exists>ds. field r ''threat_details'' = Some (JList ds)
      \<and> (\<forall>e \<in> set ds. member_field e ''district'' = field r ''district'')
      \<and> (\<forall>d. get_district_from_coordinates self latitude longitude = Some d \<and> d \<noteq> []
              \<and> analysis_error py d news_articles = None \<longrightarrow>
            field r ''district'' = Some (JStr d)
          \<and> list_all2
              (\<lambda>e a. \<exists>title name. get_title a = JStr title
                  \<and> py_get (get_source a) ''name'' = Inr name
                  \<and> e = JObj [(''title'', JStr title),
                               (''source'', name),
                               (''url'', get_url a),
                               (''district'', JStr d)])
              ds (filter (matches py d) news_articles))"
proof -
  from analyze_articles_cases [of self latitude longitude py news_articles accuracy user_id
      elapsed]
  consider (fallback) msg where
      "unresolved (get_district_from_coordinates self latitude longitude)
         \<or> analysis_raised py news_articles self latitude longitude"
      "r = get_fallback_result self msg"
    | (computed) d ts where "get_district_from_coordinates self latitude longitude = Some d"
        "d \<noteq> []" "detect_threats py d news_articles [] = Inr ts"
    unfolding assms by blast
  then show ?thesis
  proof cases
    case fallback
    have 1: "field r ''threat_details'' = Some (JList [])"
      unfolding fallback(2) by (simp add: fallback_fields)
    have no: "\<not> (get_district_from_coordinates self latitude longitude = Some d
        \<and> d \<noteq> [] \<and> analysis_error py d news_articles = None)" for d
      using fallback(1)
      by (auto simp: unresolved_def analysis_raised_def split: option.splits)
    have 3: "\<forall>d. get_district_from_coordinates self latitude longitude = Some d \<and> d \<noteq> []
              \<and> analysis_error py d news_articles = None \<longrightarrow>
            field r ''district'' = Some (JStr d)
          \<and> list_all2
              (\<lambda>e a. \<exists>title name. get_title a = JStr title
                  \<and> py_get (get_source a) ''name'' = Inr name
                  \<and> e = JObj [(''title'', JStr title),
                               (''source'', name),
                               (''url'', get_url a),
                               (''district'', JStr d)])
              [] (filter (matches py d) news_articles)"
      using no by blast
    from 1 3 show ?thesis by (intro exI [of _ "[]"]) simp
  next
    case computed
    note f = resolved_fields [OF computed, of accuracy user_id elapsed, folded assms]
    from detect_threats_Inr [OF computed(3)]
    have l: "list_all2 (made_from d) ts (filter (matches py d) news_articles)" by simp
    have rel: "\<exists>title name. get_title a = JStr title
                  \<and> py_get (get_source a) ''name'' = Inr name
                  \<and> threat_dict t = JObj [(''title'', JStr title),
                               (''source'', name),
                               (''url'', get_url a),
                               (''district'', JStr d)]"
      if "made_from d t a" for t a
      using that
      by (auto simp: made_from_def new_threat_def threat_dict_def
            split: json.splits sum.splits)
    have 1: "field r ''threat_details'' = Some (JList (map threat_dict ts))"
      by (rule f(6))
    have 2: "\<forall>e \<in> set (map threat_dict ts). member_field e ''district'' = field r ''district''"
      using detect_threats_district [OF computed(3)]
      by (auto simp: member_field_def threat_dict_def f(4))
    have 3: "list_all2
              (\<lambda>e a. \<exists>title name. get_title a = JStr title
                  \<and> py_get (get_source a) ''name'' = Inr name
                  \<and> e = JObj [(''title'', JStr title),
                               (''source'', name),
                               (''url'', get_url a),
                               (''district'', JStr d)])
              (map threat_dict ts) (filter (matches py d) news_articles)"
      unfolding list_all2_map1 using l rel by (rule list_all2_mono)
    have 4: "\<forall>d'. get_district_from_coordinates self latitude longitude = Some d' \<and> d' \<noteq> []
              \<and> analysis_error py d' news_articles = None \<longrightarrow>
            field r ''district'' = Some (JStr d')
          \<and> list_all2
              (\<lambda>e a. \<exists>title name. get_title a = JStr title
                  \<and> py_get (get_source a) ''name'' = Inr name
                  \<and> e = JObj [(''title'', JStr title),
                               (''source'', name),
                               (''url'', get_url a),
                               (''district'', JStr d')])
              (map threat_dict ts) (filter (matches py d') news_articles)"
      using computed(1) f(4) 3 by auto
    from 1 2 4 show ?thesis by blast
  qed
qed

theorem threat_details_district_and_order_witness:
  "field (analyze_threats ascii_python (load_model (init (city_geocoder ''Chennai'')) Absent)
       (Finite double_19_07) (Finite double_72_87) (Finite 10) ''u1'' 0.01) ''threat_details''
     = Some (JList
         [JObj [(''title'', JStr ''Theft incidents reported in Chennai''),
                (''source'', JStr ''Local Herald''),
                (''url'', JStr ''https://example.com/chennai-theft''),
                (''district'', JStr ''Chennai'')]])
   \<and> field (analyze_threats ascii_python (load_model (init (city_geocoder ''Chennai'')) Absent)
       (Finite double_19_07) (Finite double_72_87) (Finite 10) ''u1'' 0.01) ''district''
     = Some (JStr ''Chennai'')"
proof -
  let ?r = "analyze_threats ascii_python (load_model (init (city_geocoder ''Chennai'')) Absent)
       (Finite double_19_07) (Finite double_72_87) (Finite 10) ''u1'' 0.01"
  let ?a = "[(''title'', JStr ''Theft incidents reported in Chennai''),
             (''source'', JObj [(''name'', JStr ''Local Herald'')]),
             (''url'', JStr ''https://example.com/chennai-theft'')]"
  have r: "?r = analyze_articles ascii_python get_mock_news_articles
       (load_model (init (city_geocoder ''Chennai'')) Absent)
       (Finite double_19_07) (Finite double_72_87) (Finite 10) ''u1'' 0.01"
    by (simp add: analyze_threats_def)
  have ne: "''Chennai'' \<noteq> []" by simp
  from threat_details_district_and_order [OF r] obtain ds where
    1: "field ?r ''threat_details'' = Some (JList ds)"
    and 3: "\<forall>d. get_district_from_coordinates
                  (load_model (init (city_geocoder ''Chennai'')) Absent)
                  (Finite double_19_07) (Finite double_72_87) = Some d \<and> d \<noteq> []
              \<and> analysis_error ascii_python d get_mock_news_articles = None \<longrightarrow>
            field ?r ''district'' = Some (JStr d)
          \<and> list_all2
              (\<lambda>e a. \<exists>title name. get_title a = JStr title
                  \<and> py_get (get_source a) ''name'' = Inr name
                  \<and> e = JObj [(''title'', JStr title),
                               (''source'', name),
                               (''url'', get_url a),
                               (''district'', JStr d)])
              ds (filter (matches ascii_python d) get_mock_news_articles)"
    by blast
  from 3 city_resolved [OF ne] ne mock_never_raises
  have d: "field ?r ''district'' = Some (JStr ''Chennai'')"
    and l: "list_all2
              (\<lambda>e a. \<exists>title name. get_title a = JStr title
                  \<and> py_get (get_source a) ''name'' = Inr name
                  \<and> e = JObj [(''title'', JStr title),
                               (''source'', name),
                               (''url'', get_url a),
                               (''district'', JStr ''Chennai'')])
              ds (filter (matches ascii_python ''Chennai'') get_mock_news_articles)"
    by blast+
  from l have "ds = [JObj [(''title'', JStr ''Theft incidents reported in Chennai''),
                (''source'', JStr ''Local Herald''),
                (''url'', JStr ''https://example.com/chennai-theft''),
                (''district'', JStr ''Chennai'')]]"
    unfolding chennai_matches
    by (auto simp: list_all2_Cons2 get_title_def get_source_def get_url_def py_get_def)
  with 1 d show ?thesis by simp
qed

subsection \<open>The confidence values\<close>

text \<open>
  Claim C10. Every result of the wired-up analyzer has a confidence among 0.0, 0.7, 0.8
  and 0.9, and the confidence is 0.0 exactly when the risk level is unknown.
\<close>

theorem confidence_values:
  "\<exists>c. field (analyze_articles py news_articles self latitude longitude accuracy user_id
               elapsed) ''confidence'' = Some (JFloat c)
      \<and> c \<in> {0.0, 0.7, 0.8, 0.9}
      \<and> (c = 0.0 \<longleftrightarrow>
           field (analyze_articles py news_articles self latitude longitude accuracy user_id
                    elapsed) ''risk_level'' = Some (JStr ''unknown''))"
proof -
  from analyze_articles_cases [of self latitude longitude py news_articles accuracy user_id
      elapsed]
  consider (fallback) msg where
      "analyze_articles py news_articles self latitude longitude accuracy user_id elapsed
         = get_fallback_result self msg"
    | (computed) d ts where "get_district_from_coordinates self latitude longitude = Some d"
        "d \<noteq> []" "detect_threats py d news_articles [] = Inr ts"
    by blast
  then show ?thesis
  proof cases
    case fallback
    show ?thesis unfolding fallback by (simp add: fallback_fields)
  next
    case computed
    have "confidence_of ts \<in> {0.0, 0.7, 0.8, 0.9}" by (simp add: confidence_of_def)
    moreover have "confidence_of ts \<noteq> 0" by (rule confidence_of_positive)
    ultimately show ?thesis
      using resolved_fields(1,2) [OF computed] by (simp add: risk_of_known)
  qed
qed

theorem confidence_values_witness:
  "field (analyze_threats ascii_python (load_model (init failing_geocoder) Absent)
       (Finite double_19_07) (Finite double_72_87) (Finite 10) ''u1'' 0.01) ''confidence''
     = Some (JFloat 0)
   \<and> field (analyze_threats ascii_python (load_model (init failing_geocoder) Absent)
       (Finite double_19_07) (Finite double_72_87) (Finite 10) ''u1'' 0.01) ''risk_level''
     = Some (JStr ''unknown'')"
proof -
  let ?r = "analyze_articles ascii_python get_mock_news_articles
       (load_model (init failing_geocoder) Absent)
       (Finite double_19_07) (Finite double_72_87) (Finite 10) ''u1'' 0.01"
  have u: "unresolved (get_district_from_coordinates (load_model (init failing_geocoder) Absent)
       (Finite double_19_07) (Finite double_72_87))"
    by (simp add: failing_unresolved unresolved_def)
  have rl: "field ?r ''risk_level'' = Some (JStr ''unknown'')"
    unfolding analyze_articles_unresolved [OF u] by (rule fallback_fields)
  from confidence_values [of ascii_python get_mock_news_articles
        "load_model (init failing_geocoder) Absent"
        "Finite double_19_07" "Finite double_72_87" "Finite 10" "''u1''" "0.01"]
  obtain c where "field ?r ''confidence'' = Some (JFloat c)"
    and "c = 0.0 \<longleftrightarrow> field ?r ''risk_level'' = Some (JStr ''unknown'')"
    by blast
  with rl show ?thesis by (simp add: analyze_threats_def)
qed

subsection \<open>The fields of the printed object\<close>

lemma keys_analyze_articles:
  "keys (analyze_articles py news self lat lon acc uid el) = documented_fields"
proof -
  from analyze_articles_cases [of self lat lon py news acc uid el]
  consider (fallback) msg where
      "analyze_articles py news self lat lon acc uid el = get_fallback_result self msg"
    | (computed) d ts where "get_district_from_coordinates self lat lon = Some d"
        "d \<noteq> []" "detect_threats py d news [] = Inr ts"
    by blast
  then show ?thesis
  proof cases
    case fallback
    show ?thesis
      unfolding fallback
      by (simp add: keys_def get_fallback_result_def documented_fields_def)
  next
    case computed
    show ?thesis
      unfolding analyze_articles_resolved [OF computed]
      by (simp add: keys_def documented_fields_def)
  qed
qed

lemma keys_error_result: "keys (error_result e) = ''error'' # documented_fields"
  by (simp add: keys_def error_result_def documented_fields_def)

lemma keys_predict:
  "keys (predict self lat lon acc uid el) =
     [''risk_level'', ''confidence'', ''prediction'', ''insights'', ''recommendations'',
      ''safety_alert'', ''model_version'', ''processing_time'']"
  by (simp add: keys_def predict_def Let_def)

lemma keys_template_error_result:
  "keys (template_error_result e) =
     [''error'', ''risk_level'', ''confidence'', ''prediction'', ''insights'',
      ''recommendations'', ''safety_alert'', ''model_version'', ''processing_time'']"
  by (simp add: keys_def template_error_result_def)

text \<open>
  Claim C4, as the specification states it: each script prints, for every invocation, an
  object with exactly the eleven documented fields. This fails. On the sample command
  line the templated script prints eight fields, without \<^verbatim>\<open>district\<close>,
  \<^verbatim>\<open>threats_detected\<close> and \<^verbatim>\<open>threat_details\<close>; with a latitude that \<^verbatim>\<open>float()\<close> rejects the
  wired-up script prints a twelfth field \<^verbatim>\<open>error\<close>; with three arguments in place of four
  it prints the field \<^verbatim>\<open>error\<close> alone.
\<close>

theorem same_documented_fields_counterexample:
  "map_option keys
      (printed (template_main (sample_env (city_geocoder ''Chennai'') Absent) sample_argv))
     \<noteq> Some documented_fields
   \<and> map_option keys
      (printed (main (sample_env (city_geocoder ''Chennai'') Absent)
         [''predict.py'', ''north'', ''72.87'', ''10'', ''u1'']))
     \<noteq> Some documented_fields
   \<and> map_option keys
      (printed (main (sample_env (city_geocoder ''Chennai'') Absent)
         [''predict.py'', ''19.07'', ''72.87'', ''10'']))
     \<noteq> Some documented_fields"
proof -
  have "map_option keys
      (printed (template_main (sample_env (city_geocoder ''Chennai'') Absent) sample_argv))
     \<noteq> Some documented_fields"
    by (simp add: template_main_def sample_env_def sample_argv_def sample_float_def
          ascii_python_def printed_def Let_def keys_predict documented_fields_def)
  moreover have "map_option keys
      (printed (main (sample_env (city_geocoder ''Chennai'') Absent)
         [''predict.py'', ''north'', ''72.87'', ''10'', ''u1'']))
     \<noteq> Some documented_fields"
    by (simp add: main_def sample_env_def sample_float_def ascii_python_def printed_def
          keys_error_result)
  moreover have "map_option keys
      (printed (main (sample_env (city_geocoder ''Chennai'') Absent)
         [''predict.py'', ''19.07'', ''72.87'', ''10'']))
     \<noteq> Some documented_fields"
    by (simp add: main_def printed_def usage_error_def keys_def documented_fields_def)
  ultimately show ?thesis by blast
qed

text \<open>
  Claim C4, amended. For every invocation with four arguments whose numeric arguments
  \<^verbatim>\<open>float()\<close> accepts, the wired-up script prints one object with exactly the eleven
  documented fields and the templated script prints one object with exactly the first
  eight of them. When \<^verbatim>\<open>float()\<close> rejects an argument, each script prints its fields
  preceded by a field \<^verbatim>\<open>error\<close>. With any other number of arguments each prints an object
  with the single field \<^verbatim>\<open>error\<close>.
\<close>

theorem printed_fields_of_both_scripts:
  "map_option keys (printed (main env argv)) =
     Some (if length argv \<noteq> 5 then [''error'']
           else if float_args_ok env argv then documented_fields
           else ''error'' # documented_fields)
   \<and> map_option keys (printed (template_main env argv)) =
     Some (if length argv \<noteq> 5 then [''error'']
           else if float_args_ok env argv
           then [''risk_level'', ''confidence'', ''prediction'', ''insights'',
                 ''recommendations'', ''safety_alert'', ''model_version'', ''processing_time'']
           else [''error'', ''risk_level'', ''confidence'', ''prediction'', ''insights'',
                 ''recommendations'', ''safety_alert'', ''model_version'',
                 ''processing_time''])"
proof -
  have wired: "map_option keys (printed (main env argv)) =
     Some (if length argv \<noteq> 5 then [''error'']
           else if float_args_ok env argv then documented_fields
           else ''error'' # documented_fields)"
  proof (cases "length argv = 5")
    case False
    then show ?thesis by (simp add: main_def printed_def usage_error_def keys_def)
  next
    case True
    from main_five [OF True, of env] show ?thesis
      using True
      by (auto simp: printed_def analyze_threats_def keys_analyze_articles keys_error_result)
  qed
  have template: "map_option keys (printed (template_main env argv)) =
     Some (if length argv \<noteq> 5 then [''error'']
           else if float_args_ok env argv
           then [''risk_level'', ''confidence'', ''prediction'', ''insights'',
                 ''recommendations'', ''safety_alert'', ''model_version'', ''processing_time'']
           else [''error'', ''risk_level'', ''confidence'', ''prediction'', ''insights'',
                 ''recommendations'', ''safety_alert'', ''model_version'',
                 ''processing_time''])"
  proof (cases "length argv = 5")
    case False
    then show ?thesis by (simp add: template_main_def printed_def usage_error_def keys_def)
  next
    case True
    then show ?thesis
      by (auto simp: template_main_def printed_def float_args_ok_def Let_def keys_predict
            keys_template_error_result split: sum.splits)
  qed
  from wired template show ?thesis by blast
qed

theorem printed_fields_of_both_scripts_witness:
  "map_option keys
      (printed (main (sample_env (city_geocoder ''Chennai'') Absent) sample_argv))
     = Some documented_fields
   \<and> map_option keys
      (printed (template_main (sample_env (city_geocoder ''Chennai'') Absent) sample_argv))
     = Some [''risk_level'', ''confidence'', ''prediction'', ''insights'',
             ''recommendations'', ''safety_alert'', ''model_version'', ''processing_time'']"
proof -
  have five: "length sample_argv = 5" by (simp add: sample_argv_def)
  from printed_fields_of_both_scripts
         [of "sample_env (city_geocoder ''Chennai'') Absent" sample_argv]
  show ?thesis by (simp add: five sample_args_ok)
qed

end
